theory Spec2Isabelle
  imports Main "HOL-Library.Sublist"
begin

section \<open>Storage helper of trains: a shallow embedding of \<open>trains/storage/helper.py\<close>\<close>

text \<open>
  The module moves byte streams between storage backends behind one URL interface.
  Python strings are \<open>string\<close>, \<open>str.startswith\<close> is \<^const>\<open>prefix\<close>, exceptions are
  values of \<open>exn\<close> carried in the left summand of a result, and every effect the claims
  speak about (files, the helper cache, callbacks, driver calls) is explicit state or an
  explicit trace of events.
\<close>

subsection \<open>Exceptions\<close>

text \<open>
  The exception classes the module raises or catches by name. \<open>DownloadError\<close> and
  \<open>StorageError\<close> are the module's own; \<open>ConnectionError\<close> is the one imported from
  \<open>requests.exceptions\<close>. All of them derive from \<open>Exception\<close>, and none of them
  overrides truthiness, so \<open>if last_ex:\<close> holds for every raised value.
\<close>

datatype exn =
    DownloadError
  | StorageError
  | UsageError
  | ConnectionError
  | ValueError
  | TypeError
  | AttributeError
  | KeyError
  | NotImplementedError
  | OSError
  | PyException string

subsection \<open>Path substitution rules and URL canonicalization\<close>

record PathSubstitutionRule =
  registered_prefix :: string
  local_prefix :: string
  replace_windows_sep :: bool
  replace_linux_sep :: bool

text \<open>
  \<open>s.replace(old, new, 1)\<close>: the leftmost occurrence of \<open>old\<close> is replaced, once. The
  empty \<open>old\<close> occurs at the start of every string, the empty one included.
\<close>

fun str_replace_first :: "string \<Rightarrow> string \<Rightarrow> string \<Rightarrow> string" where
  "str_replace_first old new [] = (if old = [] then new else [])"
| "str_replace_first old new (c # cs) =
     (if prefix old (c # cs) then new @ drop (length old) (c # cs)
      else c # str_replace_first old new cs)"

text \<open>
  \<open>s.replace(sep, os.sep)\<close> for the one-character separators the source passes
  (\<open>'\\'\<close> and \<open>'/'\<close>): every occurrence of the character becomes \<open>os.sep\<close>.
\<close>

definition str_replace_char :: "char \<Rightarrow> string \<Rightarrow> string \<Rightarrow> string" where
  "str_replace_char sep new s = concat (map (\<lambda>c. if c = sep then new else [c]) s)"

text \<open>The inner function \<open>replace_separator(_url, where, sep)\<close>; \<open>os_sep\<close> is \<open>os.sep\<close>.\<close>

definition replace_separator :: "string \<Rightarrow> string \<Rightarrow> nat \<Rightarrow> char \<Rightarrow> string" where
  "replace_separator os_sep url wher sep =
     take wher url @ str_replace_char sep os_sep (drop wher url)"

text \<open>
  \<open>StorageHelper._apply_url_substitutions\<close>: the loop over \<open>cls._path_substitutions\<close>
  with its \<open>break\<close> after the first rule whose prefix matches.
\<close>

fun apply_url_substitutions :: "string \<Rightarrow> PathSubstitutionRule list \<Rightarrow> string \<Rightarrow> string" where
  "apply_url_substitutions os_sep [] url = url"
| "apply_url_substitutions os_sep (rule # rules) url =
     (if prefix (registered_prefix rule) url then
        (let url1 = str_replace_first (registered_prefix rule) (local_prefix rule) url;
             url2 = (if replace_windows_sep rule
                     then replace_separator os_sep url1 (length (local_prefix rule)) (CHR 0x5C)
                     else url1);
             url3 = (if replace_linux_sep rule
                     then replace_separator os_sep url2 (length (local_prefix rule)) (CHR ''/'')
                     else url2)
         in url3)
      else apply_url_substitutions os_sep rules url)"

text \<open>\<open>StorageHelper._canonize_url\<close> only delegates.\<close>

definition canonize_url :: "string \<Rightarrow> PathSubstitutionRule list \<Rightarrow> string \<Rightarrow> string" where
  "canonize_url os_sep rules url = apply_url_substitutions os_sep rules url"

text \<open>
  The rule of the specification's concrete scenario, a rule that maps a Linux mount to a
  Windows drive and asks for the slashes of the rest to be translated, and a rule that
  maps a Windows drive to a Linux mount and asks for the backslashes of the rest to be
  translated.
\<close>

definition scenario_rule :: PathSubstitutionRule where
  "scenario_rule = \<lparr>registered_prefix = ''s3://old-bucket'', local_prefix = ''s3://new-bucket'',
     replace_windows_sep = False, replace_linux_sep = False\<rparr>"

definition to_windows_rule :: PathSubstitutionRule where
  "to_windows_rule = \<lparr>registered_prefix = ''file:///mnt/shared'', local_prefix = ''Z:/shared'',
     replace_windows_sep = False, replace_linux_sep = True\<rparr>"

definition to_linux_rule :: PathSubstitutionRule where
  "to_linux_rule = \<lparr>registered_prefix = ''Z:'', local_prefix = ''/mnt/z'',
     replace_windows_sep = True, replace_linux_sep = False\<rparr>"

subsection \<open>The environment and the helper instance\<close>

text \<open>
  What the module reads from its surroundings and from libraries that are not part of it:
  \<open>os.name\<close> and \<open>os.sep\<close>, the registered substitution rules
  (\<open>StorageHelper._path_substitutions\<close>), \<open>urlparse(url).scheme\<close>, the bucket
  configuration lookups behind \<open>_resolve_base_url\<close>, \<open>str(Path(p).absolute())\<close>,
  \<open>Path(p).as_posix()\<close> and the text of \<open>time()\<close>. \<open>rename_fails src dst\<close> says that
  the operating system refuses \<open>os.rename(src, dst)\<close> for a reason the file system below
  does not show (the destination is a directory, a lock, permissions).
  \<open>azure_blob_name_ok name\<close> says that the Azure driver's
  \<open>_blob_name_from_object_path(name, container.name)\<close>, which parses the name with
  \<open>urlparse\<close> and \<open>furl\<close>, returns; otherwise it raises \<open>StorageError\<close>.
\<close>

record environment =
  os_name :: string
  os_sep :: string
  path_substitutions :: "PathSubstitutionRule list"
  url_scheme :: "string \<Rightarrow> string"
  s3_base_url :: "string \<Rightarrow> exn + string"
  azure_base_url :: "string \<Rightarrow> string option"
  gs_base_url :: "string \<Rightarrow> exn + string"
  path_absolute :: "string \<Rightarrow> string"
  path_as_posix :: "string \<Rightarrow> string"
  timestamp :: string
  rename_fails :: "string \<Rightarrow> string \<Rightarrow> bool"
  azure_blob_name_ok :: "string \<Rightarrow> bool"

text \<open>The five driver classes of the module, all subclasses of \<open>_Driver\<close>.\<close>

datatype driver_class =
    HttpDriver
  | Boto3Driver
  | GoogleCloudStorageDriver
  | AzureBlobServiceStorageDriver
  | FileStorageDriver

text \<open>The fields of a \<open>StorageHelper\<close> instance the modelled methods read.\<close>

record helper =
  base_url :: string
  scheme :: string
  driver :: driver_class

text \<open>\<open>s.lstrip(c)\<close> for a one-character argument.\<close>

definition lstrip_char :: "char \<Rightarrow> string \<Rightarrow> string" where
  "lstrip_char c s = dropWhile (\<lambda>x. x = c) s"

text \<open>\<open>StorageHelper._normalize_object_name\<close>.\<close>

definition normalize_object_name :: "environment \<Rightarrow> helper \<Rightarrow> string \<Rightarrow> string" where
  "normalize_object_name env h path =
     (let path1 = (if prefix (base_url h) path then
                     (let p = drop (length (base_url h)) path
                      in if prefix ''/'' p \<and> os_name env = ''nt'' then drop 1 p else p)
                   else path)
      in if scheme h \<in> {''s3'', ''gs'', ''azure''} then lstrip_char (CHR ''/'') path1 else path1)"

subsection \<open>The driver classes\<close>

text \<open>
  The methods the abstract class \<open>_Driver\<close> declares (each an \<open>@abstractmethod\<close>), and the
  methods each driver class defines in its own body, in the order of the source.
  \<open>hasattr(self._driver, name)\<close> holds when the class of the driver or \<open>_Driver\<close> has the
  attribute.
\<close>

definition Driver_abstract_methods :: "string list" where
  "Driver_abstract_methods =
     [''get_container'', ''test_upload'', ''upload_object_via_stream'', ''list_container_objects'',
      ''get_direct_access'', ''download_object'', ''download_object_as_stream'', ''delete_object'',
      ''upload_object'', ''get_object'']"

fun class_methods :: "driver_class \<Rightarrow> string list" where
  "class_methods HttpDriver =
     [''__init__'', ''get_container'', ''upload_object_via_stream'', ''list_container_objects'',
      ''delete_object'', ''get_object'', ''download_object_as_stream'', ''download_object'',
      ''get_direct_access'', ''test_upload'', ''upload_object'']"
| "class_methods Boto3Driver =
     [''__init__'', ''_get_stream_download_pool'', ''get_container'', ''upload_object_via_stream'',
      ''upload_object'', ''list_container_objects'', ''delete_object'', ''get_object'',
      ''download_object_as_stream'', ''download_object'', ''_test_bucket_config'',
      ''_get_bucket_region'', ''get_direct_access'', ''test_upload'']"
| "class_methods GoogleCloudStorageDriver =
     [''_get_stream_download_pool'', ''get_container'', ''upload_object_via_stream'',
      ''upload_object'', ''list_container_objects'', ''delete_object'', ''get_object'',
      ''download_object_as_stream'', ''download_object'', ''test_upload'', ''get_direct_access'']"
| "class_methods AzureBlobServiceStorageDriver =
     [''get_container'', ''upload_object_via_stream'', ''upload_object'', ''list_container_objects'',
      ''delete_object'', ''get_object'', ''download_object_as_stream'', ''download_object'',
      ''test_upload'', ''_blob_name_from_object_path'', ''get_direct_access'']"
| "class_methods FileStorageDriver =
     [''__init__'', ''_make_path'', ''_check_container_name'', ''_make_container'', ''_make_object'',
      ''iterate_containers'', ''_get_objects'', ''iterate_container_objects'', ''get_container'',
      ''get_container_cdn_url'', ''get_object'', ''get_object_cdn_url'', ''download_object'',
      ''download_object_as_stream'', ''upload_object'', ''upload_object_via_stream'',
      ''delete_object'', ''create_container'', ''delete_container'', ''list_container_objects'',
      ''_read_in_chunks'', ''get_direct_access'', ''test_upload'']"

definition hasattr_driver :: "driver_class \<Rightarrow> string \<Rightarrow> bool" where
  "hasattr_driver c name = (name \<in> set (class_methods c) \<or> name \<in> set Driver_abstract_methods)"

subsection \<open>The upload methods of the drivers\<close>

text \<open>
  The backend library behind the upload methods of a driver, over a backend state \<open>'w\<close>.
  \<open>sdk_upload_stream name w pos\<close> is the library call of \<open>upload_object_via_stream\<close>
  (\<open>session.post\<close> with its status check, \<open>upload_fileobj\<close>, \<open>upload_from_file\<close>,
  \<open>create_blob_from_bytes\<close>, or the file driver's write): from the state of the backend
  and the position of the stream it gives the exception raised (if any), the new state
  and the position the stream is left at. \<open>sdk_upload_file path name w\<close> is the library
  call of \<open>upload_object\<close>. \<open>open_file path\<close> is what \<open>open(path, 'rb')\<close> raises, if
  anything.
\<close>

record 'w upload_backend =
  sdk_upload_stream :: "string \<Rightarrow> 'w \<Rightarrow> nat \<Rightarrow> exn option \<times> 'w \<times> nat"
  sdk_upload_file :: "string \<Rightarrow> string \<Rightarrow> 'w \<Rightarrow> exn option \<times> 'w"
  open_file :: "string \<Rightarrow> exn option"

text \<open>
  \<open>upload_object_via_stream\<close> of the five drivers. The result is the exception raised or
  the truth value of what is returned. The HTTP and file drivers let every exception of
  the upload through (the HTTP driver raises \<open>ValueError\<close> itself for a status that is
  not \<open>ok\<close>). The S3, Google and Azure drivers wrap the library call in
  \<open>try: ... except Exception as ex: log.error(...); return False\<close>. The Azure driver
  parses the blob name before its \<open>try\<close>.
\<close>

definition upload_object_via_stream ::
  "environment \<Rightarrow> driver_class \<Rightarrow> 'w upload_backend \<Rightarrow> string \<Rightarrow> 'w \<Rightarrow> nat
     \<Rightarrow> (exn + bool) \<times> 'w \<times> nat" where
  "upload_object_via_stream env c be object_name w pos =
     (if c = AzureBlobServiceStorageDriver \<and> \<not> azure_blob_name_ok env object_name
      then (Inl StorageError, w, pos)
      else
        (case sdk_upload_stream be object_name w pos of
           (None, w1, pos1) \<Rightarrow> (Inr True, w1, pos1)
         | (Some e, w1, pos1) \<Rightarrow>
             if c = Boto3Driver \<or> c = GoogleCloudStorageDriver \<or> c = AzureBlobServiceStorageDriver
             then (Inr False, w1, pos1)
             else (Inl e, w1, pos1)))"

text \<open>
  \<open>upload_object\<close> of the five drivers, in the same way. After a failed upload the S3 and
  Google drivers return \<open>False\<close> and the Azure driver returns \<open>None\<close>.
\<close>

definition upload_object ::
  "environment \<Rightarrow> driver_class \<Rightarrow> 'w upload_backend \<Rightarrow> string \<Rightarrow> string \<Rightarrow> 'w
     \<Rightarrow> (exn + bool) \<times> 'w" where
  "upload_object env c be file_path object_name w =
     (if c = AzureBlobServiceStorageDriver \<and> \<not> azure_blob_name_ok env object_name
      then (Inl StorageError, w)
      else
        (case sdk_upload_file be file_path object_name w of
           (None, w1) \<Rightarrow> (Inr True, w1)
         | (Some e, w1) \<Rightarrow>
             if c = Boto3Driver \<or> c = GoogleCloudStorageDriver \<or> c = AzureBlobServiceStorageDriver
             then (Inr False, w1)
             else (Inl e, w1)))"

subsection \<open>Upload from a stream, with retries\<close>

text \<open>
  One pass of the retry loop: where the stream stood when the driver was called, what the
  driver call raised or the truth value of what it returned, and where the stream stood
  when the pass was over.
\<close>

record attempt =
  started_at :: nat
  outcome :: "exn + bool"
  left_at :: nat

text \<open>\<open>stream.seek(target)\<close>: a stream that cannot seek raises.\<close>

definition stream_seek :: "bool \<Rightarrow> nat \<Rightarrow> exn + nat" where
  "stream_seek seekable target = (if seekable then Inr target else Inl OSError)"

text \<open>
  The loop \<open>for i in range(max(1, retries))\<close> of \<open>upload_from_stream\<close>; \<open>up\<close> is the driver
  call \<open>self._driver.upload_object_via_stream(iterator=stream, ...)\<close>. A call that returns
  ends the loop (\<open>last_ex = None; break\<close>), whatever it returns: the value is not bound.
  A call that raises is followed by \<open>stream.seek(0)\<close> inside a \<open>try\<close> whose \<open>except\<close>
  ignores every error.
\<close>

fun upload_from_stream_loop ::
  "('w \<Rightarrow> nat \<Rightarrow> (exn + bool) \<times> 'w \<times> nat) \<Rightarrow> bool \<Rightarrow> nat \<Rightarrow> 'w \<Rightarrow> nat \<Rightarrow> exn option
     \<Rightarrow> exn option \<times> 'w \<times> nat \<times> attempt list" where
  "upload_from_stream_loop up seekable 0 w pos last_ex = (last_ex, w, pos, [])"
| "upload_from_stream_loop up seekable (Suc n) w pos last_ex =
     (case up w pos of
        (Inr ret, w1, pos1) \<Rightarrow>
          (None, w1, pos1, [\<lparr>started_at = pos, outcome = Inr ret, left_at = pos1\<rparr>])
      | (Inl ex, w1, pos1) \<Rightarrow>
          (let pos2 = (case stream_seek seekable 0 of Inr p \<Rightarrow> p | Inl _ \<Rightarrow> pos1);
               (r, w2, pos3, tr) = upload_from_stream_loop up seekable n w1 pos2 (Some ex)
           in (r, w2, pos3, \<lparr>started_at = pos, outcome = Inl ex, left_at = pos2\<rparr> # tr)))"

text \<open>
  \<open>StorageHelper.upload_from_stream\<close>. The result is the raised exception or the returned
  destination path, with the backend state, the final stream position and the attempts
  made. The \<open>extra\<close> dictionary is handed to the driver unread and is left out.
\<close>

definition upload_from_stream ::
  "environment \<Rightarrow> helper \<Rightarrow> 'w upload_backend \<Rightarrow> bool \<Rightarrow> 'w \<Rightarrow> nat \<Rightarrow> string \<Rightarrow> int
     \<Rightarrow> (exn + string) \<times> 'w \<times> nat \<times> attempt list" where
  "upload_from_stream env h be seekable w pos dest_path retries =
     (let dest_path1 = canonize_url (os_sep env) (path_substitutions env) dest_path;
          object_name = normalize_object_name env h dest_path1;
          (last_ex, w1, pos1, tr) =
             upload_from_stream_loop (upload_object_via_stream env (driver h) be object_name)
               seekable (nat (max 1 retries)) w pos None
      in (case last_ex of
            Some ex \<Rightarrow> (Inl ex, w1, pos1, tr)
          | None \<Rightarrow> (Inr dest_path1, w1, pos1, tr)))"

text \<open>Each attempt starts where the one before it left the stream.\<close>

fun chained :: "nat \<Rightarrow> attempt list \<Rightarrow> bool" where
  "chained pos [] = True"
| "chained pos (a # as) = (started_at a = pos \<and> chained (left_at a) as)"

subsection \<open>Upload from a file, with the progress callback\<close>

text \<open>
  \<open>StorageHelper._upload_from_file\<close>: the driver's \<open>upload_object\<close> when the driver has the
  attribute, otherwise \<open>upload_from_stream\<close> (with its default of one attempt) on the
  opened file. What the call returns is what the driver returned, or the destination
  path.
\<close>

definition upload_from_file ::
  "environment \<Rightarrow> helper \<Rightarrow> 'w upload_backend \<Rightarrow> string \<Rightarrow> string \<Rightarrow> 'w \<Rightarrow> (exn + bool) \<times> 'w" where
  "upload_from_file env h be local_path dest_path w =
     (if \<not> hasattr_driver (driver h) ''upload_object'' then
        (case open_file be local_path of
           Some e \<Rightarrow> (Inl e, w)
         | None \<Rightarrow>
             (case upload_from_stream env h be True w 0 dest_path 1 of
                (Inl e, w1, pos1, tr) \<Rightarrow> (Inl e, w1)
              | (Inr res, w1, pos1, tr) \<Rightarrow> (Inr (res \<noteq> []), w1)))
      else upload_object env (driver h) be local_path (normalize_object_name env h dest_path) w)"

text \<open>What the callback is called with: \<open>None\<close>, \<open>False\<close> or the destination path.\<close>

datatype cb_arg = CbNone | CbFalse | CbPath string

text \<open>
  The events of \<open>_do_upload\<close>: a call of the callback (with what the call raised, which
  the surrounding \<open>try\<close> swallows) and an attempt to upload (with what
  \<open>_upload_from_file\<close> raised, or the truth value of what it returned).
\<close>

datatype upload_event = Callback cb_arg "exn option" | UploadAttempt "exn + bool"

text \<open>
  The retry loop of \<open>_do_upload\<close>; \<open>upf\<close> is the call
  \<open>self._upload_from_file(local_path=src_path, dest_path=dest_path, extra=extra)\<close>, whose
  value is not bound.
\<close>

fun do_upload_loop ::
  "('w \<Rightarrow> (exn + bool) \<times> 'w) \<Rightarrow> nat \<Rightarrow> 'w \<Rightarrow> exn option \<Rightarrow> exn option \<times> 'w \<times> upload_event list" where
  "do_upload_loop upf 0 w last_ex = (last_ex, w, [])"
| "do_upload_loop upf (Suc n) w last_ex =
     (case upf w of
        (Inr ret, w1) \<Rightarrow> (None, w1, [UploadAttempt (Inr ret)])
      | (Inl e, w1) \<Rightarrow>
          (let (r, w2, tr) = do_upload_loop upf n w1 (Some e)
           in (r, w2, UploadAttempt (Inl e) # tr)))"

text \<open>
  A guarded call of the callback. \<open>cb\<close> is \<open>None\<close> when the caller gave no callback: the
  guarded calls (\<open>if cb:\<close>) are skipped, and the unguarded \<open>cb(False)\<close> raises a
  \<open>TypeError\<close> that its \<open>try\<close> swallows; in both cases no callback runs.
\<close>

definition call_cb :: "(cb_arg \<Rightarrow> exn option) option \<Rightarrow> cb_arg \<Rightarrow> upload_event list" where
  "call_cb cb arg = (case cb of None \<Rightarrow> [] | Some f \<Rightarrow> [Callback arg (f arg)])"

text \<open>\<open>StorageHelper._do_upload\<close>, without its log lines.\<close>

definition do_upload ::
  "environment \<Rightarrow> helper \<Rightarrow> 'w upload_backend \<Rightarrow> (cb_arg \<Rightarrow> exn option) option \<Rightarrow> 'w
     \<Rightarrow> string \<Rightarrow> string \<Rightarrow> int \<Rightarrow> (exn + string) \<times> 'w \<times> upload_event list" where
  "do_upload env h be cb w src_path dest_path retries =
     (let tr0 = call_cb cb CbNone;
          (last_ex, w1, tr1) =
             do_upload_loop (upload_from_file env h be src_path dest_path) (nat (max 1 retries)) w None
      in (case last_ex of
            Some ex \<Rightarrow> (Inl ex, w1, tr0 @ tr1 @ call_cb cb CbFalse)
          | None \<Rightarrow> (Inr dest_path, w1, tr0 @ tr1 @ call_cb cb (CbPath dest_path))))"

subsection \<open>Base URLs\<close>

text \<open>
  \<open>StorageHelper._resolve_base_url\<close>: the dispatch on the scheme of the URL. The three
  object-store branches read bucket configurations (and \<open>furl\<close>) that are not part of the
  module; the environment gives their results. The Azure branch raises \<open>StorageError\<close>
  when there is no configuration for the URL.
\<close>

definition resolve_base_url :: "environment \<Rightarrow> string \<Rightarrow> exn + string" where
  "resolve_base_url env url =
     (let sch = url_scheme env url
      in if sch = ''s3'' then s3_base_url env url
         else if sch = ''azure'' then
           (case azure_base_url env url of None \<Rightarrow> Inl StorageError | Some u \<Rightarrow> Inr u)
         else if sch = ''gs'' then gs_base_url env url
         else if sch = ''http'' then Inr ''http://''
         else if sch = ''https'' then Inr ''https://''
         else Inr ''file://'')"

text \<open>
  The base URL \<open>conform_url\<close> works with
  (\<open>cls._resolve_base_url(folder_uri) if not base_url else base_url\<close>). \<open>base_url_arg\<close> is
  the optional argument \<open>base_url\<close>, whose default is \<open>None\<close>; \<open>None\<close> and the empty string
  are false.
\<close>

definition effective_base_url :: "environment \<Rightarrow> string \<Rightarrow> string option \<Rightarrow> exn + string" where
  "effective_base_url env folder_uri base_url_arg =
     (case base_url_arg of
        None \<Rightarrow> resolve_base_url env folder_uri
      | Some b \<Rightarrow> if b = [] then resolve_base_url env folder_uri else Inr b)"

text \<open>\<open>StorageHelper.conform_url\<close>.\<close>

definition conform_url :: "environment \<Rightarrow> string \<Rightarrow> string option \<Rightarrow> exn + string" where
  "conform_url env folder_uri base_url_arg =
     (if folder_uri = [] then Inr folder_uri
      else
        (case effective_base_url env folder_uri base_url_arg of
           Inl e \<Rightarrow> Inl e
         | Inr b \<Rightarrow>
             if \<not> prefix b folder_uri then
               (if b = ''file://'' then
                  (let f = path_absolute env folder_uri
                   in if prefix ''/'' f then Inr (b @ f) else Inr (b @ ''/'' @ f))
                else Inl ValueError)
             else Inr folder_uri))"

subsection \<open>The helper cache\<close>

text \<open>
  \<open>StorageHelper.get\<close>. \<open>helpers\<close> is the class-level cache \<open>_helpers\<close>, \<open>thread_ident\<close>
  the text of \<open>threading.current_thread().ident or 0\<close>, \<open>force_create\<close> the popped keyword
  \<open>__force_create\<close>, and \<open>construct\<close> the constructor call
  \<open>cls(base_url=base_url, url=url, logger=logger, canonize_url=False, **kwargs)\<close>, which
  raises \<open>StorageError\<close>, \<open>ValueError\<close> or \<open>UsageError\<close> when configuration, credentials or
  the backend library are missing. The result comes with the new cache and the lines
  written to the log with \<open>log.error\<close>.
\<close>

definition get ::
  "environment \<Rightarrow> (string \<Rightarrow> string \<Rightarrow> exn + 'i) \<Rightarrow> string \<Rightarrow> bool \<Rightarrow> (string \<rightharpoonup> 'i) \<Rightarrow> string
     \<Rightarrow> (exn + 'i option) \<times> (string \<rightharpoonup> 'i) \<times> string list" where
  "get env construct thread_ident force_create helpers url =
     (let url1 = canonize_url (os_sep env) (path_substitutions env) url
      in case resolve_base_url env url1 of
           Inl e \<Rightarrow> (Inl e, helpers, [])
         | Inr base \<Rightarrow>
             (let instance_key = base @ ''_'' @ thread_ident
              in if helpers instance_key \<noteq> None \<and> \<not> force_create
                 then (Inr (helpers instance_key), helpers, [])
                 else (case construct base url1 of
                         Inl e \<Rightarrow>
                           (Inr None, helpers,
                            [''Failed credentials for '' @ (if base = [] then url1 else base)])
                       | Inr inst \<Rightarrow> (Inr (Some inst), helpers(instance_key \<mapsto> inst), []))))"

subsection \<open>Listing\<close>

text \<open>
  The prefix \<open>list\<close> works with: a prefix that starts with the base URL loses it, and
  then its leading slashes (\<open>prefix[len(self.base_url):].lstrip("/")\<close>).
\<close>

definition list_prefix :: "helper \<Rightarrow> string \<Rightarrow> string" where
  "list_prefix h p =
     (if prefix (base_url h) p then lstrip_char (CHR ''/'') (drop (length (base_url h)) p) else p)"

text \<open>
  \<open>StorageHelper.list\<close>. The driver call is the parameter: given \<open>Some p\<close> it is
  \<open>list_container_objects(container, ex_prefix=p)\<close>, given \<open>None\<close> it is the call without
  the keyword, tried when the first one raises \<open>TypeError\<close>. Objects are represented by
  their names.
\<close>

definition list ::
  "helper \<Rightarrow> (string option \<Rightarrow> exn + string list) \<Rightarrow> string option \<Rightarrow> exn + string list" where
  "list h list_container_objects prefix_arg =
     (if prefix_arg \<noteq> None \<and> prefix_arg \<noteq> Some [] then
        (let p = list_prefix h (the prefix_arg);
             res = (case list_container_objects (Some p) of
                      Inl e \<Rightarrow> if e = TypeError then list_container_objects None else Inl e
                    | Inr objs \<Rightarrow> Inr objs)
         in case res of
              Inl e \<Rightarrow> Inl e
            | Inr objs \<Rightarrow> Inr (filter (\<lambda>name. prefix p name \<and> name \<noteq> p) objs))
      else list_container_objects None)"

subsection \<open>Files, remote objects and the events of a download\<close>

text \<open>
  The local file system holds regular files by path; \<open>Path(p).is_file()\<close> asks whether
  there is one. \<open>os.remove\<close> raises when the file is missing. \<open>os.rename\<close> raises when the
  source is missing, when the operating system refuses it (\<open>rename_fails\<close>), and, where
  \<open>os.name\<close> is not \<open>posix\<close>, when the destination exists; otherwise the destination
  holds the content of the source, which is gone.
\<close>

type_synonym bytes = string

type_synonym filesystem = "string \<rightharpoonup> bytes"

definition is_file :: "filesystem \<Rightarrow> string \<Rightarrow> bool" where
  "is_file fs p = (fs p \<noteq> None)"

definition os_remove :: "string \<Rightarrow> filesystem \<Rightarrow> exn + filesystem" where
  "os_remove p fs = (if fs p = None then Inl OSError else Inr (fs(p := None)))"

definition os_rename :: "environment \<Rightarrow> string \<Rightarrow> string \<Rightarrow> filesystem \<Rightarrow> exn + filesystem" where
  "os_rename env src dst fs =
     (case fs src of
        None \<Rightarrow> Inl OSError
      | Some b \<Rightarrow>
          if rename_fails env src dst then Inl OSError
          else if os_name env \<noteq> ''posix'' \<and> fs dst \<noteq> None \<and> src \<noteq> dst then Inl OSError
          else Inr ((fs(src := None))(dst \<mapsto> b)))"

text \<open>
  What \<open>download_to_file\<close> reads of the object the driver returned: its truth value
  (\<open>if not obj\<close>) and the exception, if any, that reading its size raises.
\<close>

record remote_object =
  obj_truthy :: bool
  size_error :: "exn option"

text \<open>
  What the backend library does when a driver tells it to download into a path: the bytes
  the file at that path holds afterwards (\<open>None\<close> when it creates no file) and the
  exception it raises, if any. Every driver passes the path it was given on to its
  library (\<open>p.open(mode='wb')\<close>, \<open>download_file(str(p))\<close>, \<open>download_to_filename(str(p))\<close>,
  \<open>get_blob_to_path(..., local_path)\<close>, \<open>shutil.copy(obj_path, file_path)\<close>).
\<close>

record transfer =
  written :: "bytes option"
  transfer_raises :: "exn option"

text \<open>
  What \<open>download_object_as_stream\<close> returns: a byte string (the Azure driver) or a
  generator of chunks.
\<close>

datatype dl_stream = ByteString bytes | Generator "bytes list"

text \<open>The backend behind the driver, as one download sees it.\<close>

record backend =
  get_object :: "string \<Rightarrow> exn + remote_object"
  sdk_transfer :: transfer
  download_object_as_stream :: "exn + dl_stream option"

text \<open>
  The events of a download, in order: the driver calls and the operations on local files.
  \<open>Stat\<close> carries the size read, or \<open>None\<close> when \<open>stat()\<close> raised. \<open>Rename\<close> is a rename
  that was done, \<open>RenameFailed\<close> a call of \<open>os.rename\<close> that raised.
\<close>

datatype dl_event =
    GetObject string
  | DownloadObject string
  | DownloadAsStream
  | OpenForWrite string
  | WriteChunk string bytes
  | Stat string "nat option"
  | Remove string
  | Rename string string
  | RenameFailed string string

text \<open>The path an event writes downloaded bytes to, and the events of the chunk-copy branch.\<close>

fun writes_to :: "dl_event \<Rightarrow> string option" where
  "writes_to (DownloadObject p) = Some p"
| "writes_to (OpenForWrite p) = Some p"
| "writes_to (WriteChunk p b) = Some p"
| "writes_to ev = None"

fun stream_copy_event :: "dl_event \<Rightarrow> bool" where
  "stream_copy_event DownloadAsStream = True"
| "stream_copy_event (OpenForWrite p) = True"
| "stream_copy_event (WriteChunk p b) = True"
| "stream_copy_event ev = False"

subsection \<open>Driver methods used by a download\<close>

text \<open>
  \<open>get_direct_access\<close>: \<open>None\<close> for the four remote drivers; the file driver conforms the
  path (\<open>StorageHelper.conform_url(remote_path)\<close>) and returns it without its first seven
  characters, as a POSIX path.
\<close>

definition get_direct_access :: "environment \<Rightarrow> driver_class \<Rightarrow> string \<Rightarrow> exn + string option" where
  "get_direct_access env c remote_path =
     (if c = FileStorageDriver then
        (case conform_url env remote_path None of
           Inl e \<Rightarrow> Inl e
         | Inr full_url \<Rightarrow> Inr (Some (path_as_posix env (drop 7 full_url))))
      else Inr None)"

text \<open>
  \<open>StorageHelper._get_object\<close>: a \<open>ConnectionError\<close> from the driver becomes
  \<open>DownloadError\<close>; any other exception is logged and \<open>None\<close> is returned.
\<close>

definition helper_get_object ::
  "environment \<Rightarrow> helper \<Rightarrow> backend \<Rightarrow> string \<Rightarrow> exn + remote_object option" where
  "helper_get_object env h be path =
     (case get_object be (normalize_object_name env h path) of
        Inl e \<Rightarrow> if e = ConnectionError then Inl DownloadError else Inr None
      | Inr obj \<Rightarrow> Inr (Some obj))"

definition sdk_download :: "transfer \<Rightarrow> string \<Rightarrow> filesystem \<Rightarrow> exn option \<times> filesystem" where
  "sdk_download t p fs =
     (transfer_raises t, (case written t of None \<Rightarrow> fs | Some b \<Rightarrow> fs(p \<mapsto> b)))"

text \<open>
  \<open>download_object(obj, temp_local_path, callback=cb)\<close> as \<open>download_to_file\<close> calls it, with
  the defaults of the other parameters. For the remote drivers \<open>overwrite_existing\<close>
  defaults to \<open>True\<close>, so their check for an existing file is skipped. For the file driver
  it defaults to \<open>False\<close>: an existing destination raises \<open>ValueError\<close>, and an \<open>IOError\<close>
  of the copy removes the destination and returns \<open>False\<close> without raising.
\<close>

definition download_object ::
  "driver_class \<Rightarrow> transfer \<Rightarrow> string \<Rightarrow> filesystem \<Rightarrow> exn option \<times> filesystem" where
  "download_object c t destination_path fs =
     (if c = FileStorageDriver then
        (if fs destination_path \<noteq> None then (Some ValueError, fs)
         else (case sdk_download t destination_path fs of
                 (Some e, fs1) \<Rightarrow>
                   if e = OSError then (None, fs1(destination_path := None)) else (Some e, fs1)
               | (None, fs1) \<Rightarrow> (None, fs1)))
      else sdk_download t destination_path fs)"

subsection \<open>Download to a file\<close>

text \<open>
  The inner function \<open>next_chunk\<close> (without its timing): a byte string is one chunk, after
  which the stream is \<open>None\<close>; a generator gives its next chunk, or \<open>None\<close> when it is
  exhausted.
\<close>

fun next_chunk :: "dl_stream option \<Rightarrow> bytes option \<times> dl_stream option" where
  "next_chunk (Some (ByteString b)) = (Some b, None)"
| "next_chunk (Some (Generator (c # cs))) = (Some c, Some (Generator cs))"
| "next_chunk (Some (Generator [])) = (None, Some (Generator []))"
| "next_chunk None = (None, None)"

fun stream_left :: "dl_stream option \<Rightarrow> nat" where
  "stream_left None = 0"
| "stream_left (Some (ByteString b)) = 1"
| "stream_left (Some (Generator cs)) = length cs"

text \<open>
  The loop \<open>while data: fd.write(data); ...; data, stream, tic = next_chunk(stream)\<close>: the
  chunks written, in order. It stops at the first chunk that is \<open>None\<close> or empty.
\<close>

function copy_chunks :: "bytes option \<Rightarrow> dl_stream option \<Rightarrow> bytes list" where
  "copy_chunks None stream = []"
| "copy_chunks (Some d) stream =
     (if d = [] then []
      else d # copy_chunks (fst (next_chunk stream)) (snd (next_chunk stream)))"
  by pat_completeness auto
termination
proof (relation "measure (\<lambda>(d, s). 2 * stream_left s + (case d of None \<Rightarrow> 0 | Some _ \<Rightarrow> 1))")
  show "wf (measure (\<lambda>(d, s). 2 * stream_left s + (case d of None \<Rightarrow> 0 | Some _ \<Rightarrow> 1)))"
    by simp
next
  fix d :: bytes and stream :: "dl_stream option"
  assume "d \<noteq> []"
  show "((fst (next_chunk stream), snd (next_chunk stream)), (Some d, stream))
          \<in> measure (\<lambda>(d, s). 2 * stream_left s + (case d of None \<Rightarrow> 0 | Some _ \<Rightarrow> 1))"
    by (cases stream rule: next_chunk.cases) simp_all
qed

text \<open>\<open>'{}_{}{}'.format(local_path, time(), self._temp_download_suffix)\<close>.\<close>

definition temp_download_path :: "environment \<Rightarrow> string \<Rightarrow> string" where
  "temp_download_path env local_path = local_path @ ''_'' @ timestamp env @ ''.partially''"

text \<open>
  The transfer into the temp file: \<open>download_object\<close> when the driver has the attribute,
  otherwise the stream of \<open>download_object_as_stream\<close> copied chunk by chunk into the file
  opened with \<open>open(temp_local_path, 'wb')\<close>. The result is the exception raised (if any),
  the file system and the events.
\<close>

definition transfer_to_temp ::
  "helper \<Rightarrow> backend \<Rightarrow> string \<Rightarrow> filesystem \<Rightarrow> exn option \<times> filesystem \<times> dl_event list" where
  "transfer_to_temp h be temp_local_path fs =
     (if hasattr_driver (driver h) ''download_object'' then
        (let (ex, fs1) = download_object (driver h) (sdk_transfer be) temp_local_path fs
         in (ex, fs1, [DownloadObject temp_local_path]))
      else
        (case download_object_as_stream be of
           Inl e \<Rightarrow> (Some e, fs, [DownloadAsStream])
         | Inr None \<Rightarrow> (Some ValueError, fs, [DownloadAsStream])
         | Inr (Some stream) \<Rightarrow>
             (let chunks = copy_chunks (fst (next_chunk (Some stream))) (snd (next_chunk (Some stream)))
              in (None, fs(temp_local_path \<mapsto> concat chunks),
                  [DownloadAsStream, OpenForWrite temp_local_path] @
                  map (WriteChunk temp_local_path) chunks))))"

text \<open>
  From the size check to the \<open>return local_path\<close>: \<open>stat()\<close> of the temp file, the
  exception for a file of size 0, the removal of the destination when \<open>os.name\<close> is not
  \<open>posix\<close> (its own exception ignored), and the rename.
\<close>

definition complete_download ::
  "environment \<Rightarrow> string \<Rightarrow> string \<Rightarrow> filesystem
     \<Rightarrow> (exn + string option) \<times> filesystem \<times> dl_event list" where
  "complete_download env temp_local_path local_path fs =
     (case fs temp_local_path of
        None \<Rightarrow> (Inl OSError, fs, [Stat temp_local_path None])
      | Some b \<Rightarrow>
          if length b \<le> 0 then
            (Inl (PyException ''downloaded a 0-sized file''), fs,
             [Stat temp_local_path (Some (length b))])
          else
            (let (fs1, tr1) =
                   (if os_name env \<noteq> ''posix'' then
                      ((case os_remove local_path fs of Inl e \<Rightarrow> fs | Inr f \<Rightarrow> f), [Remove local_path])
                    else (fs, []))
             in case os_rename env temp_local_path local_path fs1 of
                  Inl e \<Rightarrow>
                    (Inl e, fs1,
                     [Stat temp_local_path (Some (length b))] @ tr1 @
                     [RenameFailed temp_local_path local_path])
                | Inr fs2 \<Rightarrow>
                    (Inr (Some local_path), fs2,
                     [Stat temp_local_path (Some (length b))] @ tr1 @
                     [Rename temp_local_path local_path])))"

text \<open>
  The body of the \<open>try\<close> of \<open>download_to_file\<close>, without its log lines and the progress
  report. Of the exceptions raised while the size of the object is read, \<open>ValueError\<close>,
  \<open>AttributeError\<close> and \<open>KeyError\<close> are caught on the spot. Every exception of the body is
  raised after \<open>temp_local_path\<close> was assigned.
\<close>

definition download_try_body ::
  "environment \<Rightarrow> helper \<Rightarrow> backend \<Rightarrow> string \<Rightarrow> string \<Rightarrow> bool \<Rightarrow> filesystem
     \<Rightarrow> (exn + string option) \<times> filesystem \<times> dl_event list" where
  "download_try_body env h be remote_path local_path overwrite_existing fs =
     (if \<not> overwrite_existing \<and> is_file fs local_path then (Inr (Some local_path), fs, [])
      else
        (let temp_local_path = temp_download_path env local_path;
             object_name = normalize_object_name env h remote_path
         in case helper_get_object env h be remote_path of
              Inl e \<Rightarrow> (Inl e, fs, [GetObject object_name])
            | Inr None \<Rightarrow> (Inr None, fs, [GetObject object_name])
            | Inr (Some obj) \<Rightarrow>
                if \<not> obj_truthy obj then (Inr None, fs, [GetObject object_name])
                else if size_error obj \<noteq> None \<and>
                        size_error obj \<notin> {Some ValueError, Some AttributeError, Some KeyError}
                then (Inl (the (size_error obj)), fs, [GetObject object_name])
                else
                  (case transfer_to_temp h be temp_local_path fs of
                     (Some e, fs1, tr1) \<Rightarrow> (Inl e, fs1, GetObject object_name # tr1)
                   | (None, fs1, tr1) \<Rightarrow>
                       (let (r, fs2, tr2) = complete_download env temp_local_path local_path fs1
                        in (r, fs2, GetObject object_name # tr1 @ tr2)))))"

text \<open>
  The \<open>except\<close> clauses of \<open>download_to_file\<close>: \<open>DownloadError\<close> is raised again; any other
  exception makes the method return \<open>None\<close>, after \<open>os.remove(temp_local_path)\<close> (its own
  exception ignored) when \<open>delete_on_failure\<close> is set.
\<close>

definition download_except ::
  "environment \<Rightarrow> string \<Rightarrow> bool \<Rightarrow> (exn + string option) \<times> filesystem \<times> dl_event list
     \<Rightarrow> (exn + string option) \<times> filesystem \<times> dl_event list" where
  "download_except env local_path delete_on_failure body =
     (case body of
        (Inl e, fs1, tr) \<Rightarrow>
          if e = DownloadError then (Inl e, fs1, tr)
          else if delete_on_failure then
            (Inr None,
             (case os_remove (temp_download_path env local_path) fs1 of Inl e' \<Rightarrow> fs1 | Inr f \<Rightarrow> f),
             tr @ [Remove (temp_download_path env local_path)])
          else (Inr None, fs1, tr)
      | (Inr r, fs1, tr) \<Rightarrow> (Inr r, fs1, tr))"

text \<open>
  \<open>StorageHelper.download_to_file\<close>: the raised exception or the returned value (\<open>None\<close>
  or a path), the file system afterwards and the events. The call of \<open>get_direct_access\<close>
  is outside the \<open>try\<close>.
\<close>

definition download_to_file ::
  "environment \<Rightarrow> helper \<Rightarrow> backend \<Rightarrow> string \<Rightarrow> string \<Rightarrow> bool \<Rightarrow> bool \<Rightarrow> filesystem
     \<Rightarrow> (exn + string option) \<times> filesystem \<times> dl_event list" where
  "download_to_file env h be remote_path local_path overwrite_existing delete_on_failure fs =
     (let remote_path1 = canonize_url (os_sep env) (path_substitutions env) remote_path
      in case get_direct_access env (driver h) remote_path1 of
           Inl e \<Rightarrow> (Inl e, fs, [])
         | Inr direct_access_path \<Rightarrow>
             if direct_access_path \<noteq> None \<and> direct_access_path \<noteq> Some [] then
               (Inr direct_access_path, fs, [])
             else
               download_except env local_path delete_on_failure
                 (download_try_body env h be remote_path1 local_path overwrite_existing fs))"

subsection \<open>Example inputs\<close>

text \<open>
  A POSIX environment with the scenario's rule registered, a helper for the scenario's
  bucket, a backend whose library calls raise the first two times (the backend state
  counts the calls), and a callback that never raises.
\<close>

definition example_env :: environment where
  "example_env = \<lparr>os_name = ''posix'', os_sep = ''/'', path_substitutions = [scenario_rule],
     url_scheme = (\<lambda>u. takeWhile (\<lambda>c. c \<noteq> CHR '':'') u),
     s3_base_url = (\<lambda>u. Inr ''s3://new-bucket''),
     azure_base_url = (\<lambda>u. None),
     gs_base_url = (\<lambda>u. Inl AttributeError),
     path_absolute = (\<lambda>p. if prefix ''/'' p then p else ''/home/user/'' @ p),
     path_as_posix = (\<lambda>p. p),
     timestamp = ''1572860000.25'',
     rename_fails = (\<lambda>src dst. False),
     azure_blob_name_ok = (\<lambda>name. True)\<rparr>"

definition example_helper :: helper where
  "example_helper = \<lparr>base_url = ''s3://new-bucket'', scheme = ''s3'', driver = Boto3Driver\<rparr>"

definition flaky_upload_backend :: "nat upload_backend" where
  "flaky_upload_backend =
     \<lparr>sdk_upload_stream =
        (\<lambda>name calls pos. (if calls < 2 then Some ConnectionError else None, Suc calls, pos + 5)),
      sdk_upload_file =
        (\<lambda>path name calls. (if calls < 2 then Some ConnectionError else None, Suc calls)),
      open_file = (\<lambda>path. None)\<rparr>"

definition quiet_cb :: "cb_arg \<Rightarrow> exn option" where
  "quiet_cb arg = None"

text \<open>
  A listing that ignores the prefix it is given (as the file-system and Google drivers
  do), and a constructor that fails for one URL.
\<close>

definition example_listing :: "string option \<Rightarrow> exn + string list" where
  "example_listing ex_prefix = Inr [''a/'', ''a/x'', ''b/y'', ''a/z/w'']"

definition failing_construct :: "string \<Rightarrow> string \<Rightarrow> exn + nat" where
  "failing_construct base url = (if url = ''s3://new-bucket/no-keys'' then Inl ValueError else Inr 1)"

text \<open>
  A helper for an HTTPS server, a backend that serves every object but one (for which the
  connection fails), a file system with one file, and a Windows environment.
\<close>

definition example_http_helper :: helper where
  "example_http_helper = \<lparr>base_url = ''https://'', scheme = ''https'', driver = HttpDriver\<rparr>"

definition example_backend :: "bytes \<Rightarrow> exn option \<Rightarrow> backend" where
  "example_backend content failure =
     \<lparr>get_object = (\<lambda>name. if name = ''files.example.com/down'' then Inl ConnectionError
                           else Inr \<lparr>obj_truthy = True, size_error = None\<rparr>),
      sdk_transfer = \<lparr>written = Some content, transfer_raises = failure\<rparr>,
      download_object_as_stream = Inr (Some (Generator [content]))\<rparr>"

definition example_fs :: filesystem where
  "example_fs = [''/data/model.bin'' \<mapsto> ''old'']"

definition windows_env :: environment where
  "windows_env = example_env\<lparr>os_name := ''nt'', os_sep := [CHR 0x5C]\<rparr>"

text \<open>
  A backend whose objects carry a length that cannot be read (reading the size raises
  \<open>ValueError\<close>, which is caught on the spot), with the file its library leaves (if any)
  and the exception it raises (if any).
\<close>

definition unsized_backend :: "bytes option \<Rightarrow> exn option \<Rightarrow> backend" where
  "unsized_backend content failure =
     \<lparr>get_object = (\<lambda>name. Inr \<lparr>obj_truthy = True, size_error = Some ValueError\<rparr>),
      sdk_transfer = \<lparr>written = content, transfer_raises = failure\<rparr>,
      download_object_as_stream = Inr None\<rparr>"

text \<open>A Windows environment in which every rename is refused.\<close>

definition locked_windows_env :: environment where
  "locked_windows_env = windows_env\<lparr>rename_fails := (\<lambda>src dst. True)\<rparr>"

text \<open>A backend whose library calls for an upload raise every time.\<close>

definition failing_upload_backend :: "nat upload_backend" where
  "failing_upload_backend =
     \<lparr>sdk_upload_stream = (\<lambda>name calls pos. (Some ConnectionError, Suc calls, pos + 5)),
      sdk_upload_file = (\<lambda>path name calls. (Some ConnectionError, Suc calls)),
      open_file = (\<lambda>path. None)\<rparr>"

section \<open>Canonicalization\<close>

lemma str_replace_first_prefix:
  "prefix old s \<Longrightarrow> str_replace_first old new s = new @ drop (length old) s"
  by (cases s) auto

lemma replace_separator_after_prefix:
  "replace_separator osep (p @ rest) (length p) sep =
     p @ concat (map (\<lambda>c. if c = sep then osep else [c]) rest)"
  by (simp add: replace_separator_def str_replace_char_def)

lemma apply_rule_matching:
  assumes "prefix (registered_prefix rule) url"
  shows "apply_url_substitutions osep (rule # rules) url =
           local_prefix rule @
           (let rest = drop (length (registered_prefix rule)) url;
                rest1 = (if replace_windows_sep rule
                         then concat (map (\<lambda>c. if c = CHR 0x5C then osep else [c]) rest)
                         else rest)
            in if replace_linux_sep rule
               then concat (map (\<lambda>c. if c = CHR ''/'' then osep else [c]) rest1)
               else rest1)"
  using assms
  by (simp add: str_replace_first_prefix replace_separator_after_prefix Let_def)

text \<open>
  C4. Canonicalization applies the first rule, in registration order, whose registered
  prefix is a prefix of the URL. The result is that rule's local prefix, untouched,
  followed by the rest of the URL (what comes after the registered prefix), in which
  every backslash has become \<open>os.sep\<close> when the rule has \<open>replace_windows_sep\<close>, and then
  every slash has become \<open>os.sep\<close> when the rule has \<open>replace_linux_sep\<close>. No later rule
  takes part and the result is not canonicalized again. With no matching rule the URL
  comes back unchanged.
\<close>

theorem canonize_url_first_match:
  "canonize_url osep rules url =
     (case find (\<lambda>r. prefix (registered_prefix r) url) rules of
        None \<Rightarrow> url
      | Some r \<Rightarrow>
          local_prefix r @
          (let rest = drop (length (registered_prefix r)) url;
               rest1 = (if replace_windows_sep r
                        then concat (map (\<lambda>c. if c = CHR 0x5C then osep else [c]) rest)
                        else rest)
           in if replace_linux_sep r
              then concat (map (\<lambda>c. if c = CHR ''/'' then osep else [c]) rest1)
              else rest1))"
  unfolding canonize_url_def
proof (induction rules)
  case Nil
  show ?case by simp
next
  case (Cons rule rules)
  show ?case
  proof (cases "prefix (registered_prefix rule) url")
    case True
    then show ?thesis by (simp only: apply_rule_matching find.simps if_True option.case)
  next
    case False
    then show ?thesis using Cons.IH by simp
  qed
qed

theorem canonize_url_first_match_witness:
  "canonize_url ''/'' [scenario_rule] ''s3://old-bucket/dir/file.txt'' = ''s3://new-bucket/dir/file.txt'' \<and>
   canonize_url [CHR 0x5C] [scenario_rule, to_windows_rule] ''file:///mnt/shared/run1/model.bin'' =
     ''Z:/shared'' @ [CHR 0x5C] @ ''run1'' @ [CHR 0x5C] @ ''model.bin'' \<and>
   canonize_url ''/'' [to_linux_rule, scenario_rule] (''Z:'' @ [CHR 0x5C] @ ''a'' @ [CHR 0x5C] @ ''b.txt'') =
     ''/mnt/z/a/b.txt'' \<and>
   canonize_url ''/'' [scenario_rule, \<lparr>registered_prefix = ''s3://old'', local_prefix = ''gs://other'',
       replace_windows_sep = False, replace_linux_sep = False\<rparr>] ''s3://old-bucket/f'' =
     ''s3://new-bucket/f'' \<and>
   canonize_url ''/'' [scenario_rule, to_linux_rule] ''gs://elsewhere/f'' = ''gs://elsewhere/f''"
  using canonize_url_first_match [of "''/''" "[scenario_rule]" "''s3://old-bucket/dir/file.txt''"]
    canonize_url_first_match [of "[CHR 0x5C]" "[scenario_rule, to_windows_rule]"
      "''file:///mnt/shared/run1/model.bin''"]
    canonize_url_first_match [of "''/''" "[to_linux_rule, scenario_rule]"
      "''Z:'' @ [CHR 0x5C] @ ''a'' @ [CHR 0x5C] @ ''b.txt''"]
    canonize_url_first_match [of "''/''" "[scenario_rule, \<lparr>registered_prefix = ''s3://old'',
       local_prefix = ''gs://other'', replace_windows_sep = False, replace_linux_sep = False\<rparr>]"
      "''s3://old-bucket/f''"]
    canonize_url_first_match [of "''/''" "[scenario_rule, to_linux_rule]" "''gs://elsewhere/f''"]
  by (simp add: scenario_rule_def to_windows_rule_def to_linux_rule_def)

section \<open>Upload retries\<close>

lemma upload_from_stream_loop_attempts:
  "upload_from_stream_loop up seekable n w pos last_ex = (r, w', pos', tr) \<Longrightarrow> 0 < n \<Longrightarrow>
     1 \<le> length tr \<and> length tr \<le> n \<and>
     (\<forall>a \<in> set (butlast tr). isl (outcome a)) \<and>
     (seekable \<longrightarrow> (\<forall>a \<in> set tr. isl (outcome a) \<longrightarrow> left_at a = 0)) \<and>
     chained pos tr \<and>
     r = (case outcome (last tr) of Inl ex \<Rightarrow> Some ex | Inr ret \<Rightarrow> None) \<and>
     (isl (outcome (last tr)) \<longrightarrow> length tr = n)"
proof (induction n arbitrary: w pos last_ex r w' pos' tr)
  case 0
  then show ?case by simp
next
  case (Suc n)
  obtain o1 w1 pos1 where up: "up w pos = (o1, w1, pos1)" by (cases "up w pos") auto
  show ?case
  proof (cases o1)
    case (Inr ret)
    with Suc.prems up show ?thesis by auto
  next
    case (Inl ex)
    define pos2 where "pos2 = (case stream_seek seekable 0 of Inr p \<Rightarrow> p | Inl _ \<Rightarrow> pos1)"
    obtain r2 w2 pos3 tr2 where
      rec: "upload_from_stream_loop up seekable n w1 pos2 (Some ex) = (r2, w2, pos3, tr2)"
      by (cases "upload_from_stream_loop up seekable n w1 pos2 (Some ex)") auto
    from Suc.prems(1) up Inl rec have eqs: "r = r2"
      "tr = \<lparr>started_at = pos, outcome = Inl ex, left_at = pos2\<rparr> # tr2"
      by (simp_all add: pos2_def Let_def)
    have p2: "seekable \<Longrightarrow> pos2 = 0" by (simp add: pos2_def stream_seek_def)
    show ?thesis
    proof (cases "n = 0")
      case True
      with rec have "tr2 = []" "r2 = Some ex" by simp_all
      with eqs p2 True show ?thesis by simp
    next
      case False
      then have "0 < n" by simp
      from Suc.IH [OF rec this] eqs p2 show ?thesis by auto
    qed
  qed
qed

text \<open>
  What the loop does with a driver call that raises: between one and \<open>max(1, N)\<close> calls,
  each but the last one made has raised, a seekable stream stands at offset 0 after a
  call that raised, and the result is the destination path when the last call made
  returned, and otherwise its exception, raised only after \<open>max(1, N)\<close> calls raised.
\<close>

lemma upload_from_stream_retries_on_raise:
  assumes "upload_from_stream env h be seekable w pos dest_path retries = (res, w', pos', tr)"
  shows "1 \<le> length tr \<and> int (length tr) \<le> max 1 retries \<and>
         (\<forall>a \<in> set (butlast tr). isl (outcome a)) \<and>
         (seekable \<longrightarrow> (\<forall>a \<in> set tr. isl (outcome a) \<longrightarrow> left_at a = 0)) \<and>
         chained pos tr \<and>
         res = (case outcome (last tr) of
                  Inr ret \<Rightarrow> Inr (canonize_url (os_sep env) (path_substitutions env) dest_path)
                | Inl ex \<Rightarrow> Inl ex) \<and>
         (isl (outcome (last tr)) \<longrightarrow> int (length tr) = max 1 retries)"
proof -
  define n where "n = nat (max 1 retries)"
  define up where "up = upload_object_via_stream env (driver h) be (normalize_object_name env h
      (canonize_url (os_sep env) (path_substitutions env) dest_path))"
  obtain r w1 pos1 tr1 where
    loop: "upload_from_stream_loop up seekable n w pos None = (r, w1, pos1, tr1)"
    by (cases "upload_from_stream_loop up seekable n w pos None") auto
  have n: "0 < n" "int n = max 1 retries" by (simp_all add: n_def)
  from assms loop have tr: "tr = tr1"
    and res: "res = (case r of Some ex \<Rightarrow> Inl ex
                     | None \<Rightarrow> Inr (canonize_url (os_sep env) (path_substitutions env) dest_path))"
    by (auto simp: upload_from_stream_def Let_def n_def up_def split: option.splits)
  from upload_from_stream_loop_attempts [OF loop n(1)] tr res n(2) show ?thesis
    by (auto split: sum.splits)
qed

text \<open>
  The S3 and Google drivers, and the Azure driver once the blob name is parsed, return
  from \<open>upload_object_via_stream\<close> whatever the library does; a failed upload gives
  \<open>False\<close>. The HTTP and file drivers raise what the library raises.
\<close>

lemma upload_object_via_stream_swallows:
  assumes "c = Boto3Driver \<or> c = GoogleCloudStorageDriver \<or>
           c = AzureBlobServiceStorageDriver \<and> azure_blob_name_ok env object_name"
  shows "upload_object_via_stream env c be object_name w pos =
           (Inr (fst (sdk_upload_stream be object_name w pos) = None),
            snd (sdk_upload_stream be object_name w pos))"
  using assms
  by (auto simp: upload_object_via_stream_def split: prod.splits option.splits)

lemma upload_object_via_stream_raises:
  assumes "c = HttpDriver \<or> c = FileStorageDriver"
  shows "upload_object_via_stream env c be object_name w pos =
           ((case fst (sdk_upload_stream be object_name w pos) of
               None \<Rightarrow> Inr True | Some e \<Rightarrow> Inl e),
            snd (sdk_upload_stream be object_name w pos))"
  using assms
  by (auto simp: upload_object_via_stream_def split: prod.splits option.splits)

text \<open>
  So with one of those three drivers \<open>upload_from_stream\<close> makes one attempt and returns
  the destination path, whatever \<open>retries\<close> is and whether or not the upload worked.
\<close>

lemma upload_from_stream_swallowing_driver:
  assumes "driver h = Boto3Driver \<or> driver h = GoogleCloudStorageDriver \<or>
           driver h = AzureBlobServiceStorageDriver \<and>
           azure_blob_name_ok env (normalize_object_name env h
             (canonize_url (os_sep env) (path_substitutions env) dest_path))"
  shows "upload_from_stream env h be seekable w pos dest_path retries =
           (Inr (canonize_url (os_sep env) (path_substitutions env) dest_path),
            fst (snd (sdk_upload_stream be (normalize_object_name env h
              (canonize_url (os_sep env) (path_substitutions env) dest_path)) w pos)),
            snd (snd (sdk_upload_stream be (normalize_object_name env h
              (canonize_url (os_sep env) (path_substitutions env) dest_path)) w pos)),
            [\<lparr>started_at = pos,
              outcome = Inr (fst (sdk_upload_stream be (normalize_object_name env h
                (canonize_url (os_sep env) (path_substitutions env) dest_path)) w pos) = None),
              left_at = snd (snd (sdk_upload_stream be (normalize_object_name env h
                (canonize_url (os_sep env) (path_substitutions env) dest_path)) w pos))\<rparr>])"
proof -
  obtain m where m: "nat (max 1 retries) = Suc m" by (cases "nat (max 1 retries)") auto
  show ?thesis
    by (simp add: upload_from_stream_def Let_def m upload_object_via_stream_swallows [OF assms]
        split: prod.splits)
qed

text \<open>
  C3. With an S3 helper, \<open>retries = 3\<close>, a seekable stream at offset 7 and a backend whose
  upload raises every time, \<open>upload_from_stream\<close> calls the driver once; the driver
  catches the exception and returns \<open>False\<close>; the stream is left where the upload left it
  (offset 12, not 0), no second attempt is made, nothing is raised and the destination
  path is returned. With an HTTP helper and the same backend there are three attempts,
  the stream is back at offset 0 after each, and the last exception is raised.
\<close>

theorem upload_from_stream_s3_failure_not_retried:
  "upload_from_stream example_env example_helper failing_upload_backend True 0 7
     ''s3://old-bucket/a.bin'' 3 =
     (Inr ''s3://new-bucket/a.bin'', 1, 12,
      [\<lparr>started_at = 7, outcome = Inr False, left_at = 12\<rparr>]) \<and>
   upload_from_stream example_env example_http_helper failing_upload_backend True 0 7
     ''https://files.example.com/a.bin'' 3 =
     (Inl ConnectionError, 3, 0,
      [\<lparr>started_at = 7, outcome = Inl ConnectionError, left_at = 0\<rparr>,
       \<lparr>started_at = 0, outcome = Inl ConnectionError, left_at = 0\<rparr>,
       \<lparr>started_at = 0, outcome = Inl ConnectionError, left_at = 0\<rparr>])"
  by (simp add: upload_from_stream_def upload_object_via_stream_def example_env_def
      example_helper_def example_http_helper_def failing_upload_backend_def canonize_url_def
      scenario_rule_def normalize_object_name_def lstrip_char_def stream_seek_def
      eval_nat_numeral Let_def)

text \<open>A backend that fails twice and then works, behind the HTTP driver: three attempts.\<close>

lemma upload_from_stream_http_third_attempt:
  "upload_from_stream example_env example_http_helper flaky_upload_backend True 0 7
     ''https://files.example.com/a.bin'' 5 =
     (Inr ''https://files.example.com/a.bin'', 3, 5,
      [\<lparr>started_at = 7, outcome = Inl ConnectionError, left_at = 0\<rparr>,
       \<lparr>started_at = 0, outcome = Inl ConnectionError, left_at = 0\<rparr>,
       \<lparr>started_at = 0, outcome = Inr True, left_at = 5\<rparr>])"
  by (simp add: upload_from_stream_def upload_object_via_stream_def example_env_def
      example_http_helper_def flaky_upload_backend_def canonize_url_def
      scenario_rule_def normalize_object_name_def lstrip_char_def stream_seek_def
      eval_nat_numeral Let_def)

section \<open>The progress callback of an upload\<close>

lemma do_upload_loop_outcomes:
  "do_upload_loop upf n w last_ex = (r, w', tr) \<Longrightarrow> 0 < n \<Longrightarrow>
     (\<exists>outs. outs \<noteq> [] \<and> tr = map UploadAttempt outs \<and>
        r = (case last outs of Inl ex \<Rightarrow> Some ex | Inr ret \<Rightarrow> None) \<and>
        (\<forall>x \<in> set (butlast outs). isl x))"
proof (induction n arbitrary: w last_ex r w' tr)
  case 0
  then show ?case by simp
next
  case (Suc n)
  obtain o1 w1 where up: "upf w = (o1, w1)" by (cases "upf w") auto
  show ?case
  proof (cases o1)
    case (Inr ret)
    with Suc.prems up have "tr = map UploadAttempt [Inr ret]" "r = None" by auto
    then show ?thesis by (intro exI [of _ "[Inr ret]"]) simp
  next
    case (Inl ex)
    obtain r2 w2 tr2 where rec: "do_upload_loop upf n w1 (Some ex) = (r2, w2, tr2)"
      by (cases "do_upload_loop upf n w1 (Some ex)") auto
    from Suc.prems(1) up Inl rec have eqs: "r = r2" "tr = UploadAttempt (Inl ex) # tr2"
      by simp_all
    show ?thesis
    proof (cases "n = 0")
      case True
      with rec have "tr2 = []" "r2 = Some ex" by simp_all
      with eqs show ?thesis by (intro exI [of _ "[Inl ex]"]) simp
    next
      case False
      then have "0 < n" by simp
      from Suc.IH [OF rec this] obtain outs where
        o: "outs \<noteq> []" "tr2 = map UploadAttempt outs"
           "r2 = (case last outs of Inl ex \<Rightarrow> Some ex | Inr ret \<Rightarrow> None)"
           "\<forall>x \<in> set (butlast outs). isl x"
        by blast
      with eqs show ?thesis by (intro exI [of _ "Inl ex # outs"]) simp
    qed
  qed
qed

text \<open>
  What \<open>_do_upload\<close> does with a callback: \<open>cb(None)\<close> first; then the calls of
  \<open>_upload_from_file\<close>, each but the last one having raised; then one last call of the
  callback: \<open>cb(dest_path)\<close> when the last call of \<open>_upload_from_file\<close> returned (whatever
  it returned), and then \<open>dest_path\<close> is returned, or \<open>cb(False)\<close> when it raised, and then
  its exception is raised.
\<close>

lemma do_upload_callback_on_raise:
  assumes "do_upload env h be (Some cb) w src_path dest_path retries = (res, w', tr)"
  shows "\<exists>outs. outs \<noteq> [] \<and> (\<forall>x \<in> set (butlast outs). isl x) \<and>
           (case last outs of
              Inr ret \<Rightarrow> res = Inr dest_path \<and>
                tr = Callback CbNone (cb CbNone) # map UploadAttempt outs @
                       [Callback (CbPath dest_path) (cb (CbPath dest_path))]
            | Inl ex \<Rightarrow> res = Inl ex \<and>
                tr = Callback CbNone (cb CbNone) # map UploadAttempt outs @
                       [Callback CbFalse (cb CbFalse)])"
proof -
  define n where "n = nat (max 1 retries)"
  obtain r w1 tr1 where loop:
    "do_upload_loop (upload_from_file env h be src_path dest_path) n w None = (r, w1, tr1)"
    by (cases "do_upload_loop (upload_from_file env h be src_path dest_path) n w None") auto
  have "0 < n" by (simp add: n_def)
  from do_upload_loop_outcomes [OF loop this] obtain outs where
    o: "outs \<noteq> []" "tr1 = map UploadAttempt outs"
       "r = (case last outs of Inl ex \<Rightarrow> Some ex | Inr ret \<Rightarrow> None)"
       "\<forall>x \<in> set (butlast outs). isl x"
    by blast
  from assms loop o show ?thesis
    by (intro exI [of _ outs]) (auto simp: do_upload_def call_cb_def n_def split: sum.splits)
qed

lemma hasattr_upload_object: "hasattr_driver c ''upload_object''"
  by (cases c) (simp_all add: hasattr_driver_def)

text \<open>
  With the S3, Google or Azure driver (the blob name parsed), \<open>_upload_from_file\<close>
  returns whatever the upload does, and \<open>_do_upload\<close> calls it once, calls
  \<open>cb(dest_path)\<close> and returns \<open>dest_path\<close>.
\<close>

lemma upload_from_file_swallows:
  assumes "driver h = Boto3Driver \<or> driver h = GoogleCloudStorageDriver \<or>
           driver h = AzureBlobServiceStorageDriver \<and>
           azure_blob_name_ok env (normalize_object_name env h dest_path)"
  shows "upload_from_file env h be local_path dest_path w =
           (Inr (fst (sdk_upload_file be local_path (normalize_object_name env h dest_path) w) = None),
            snd (sdk_upload_file be local_path (normalize_object_name env h dest_path) w))"
  using assms
  by (auto simp: upload_from_file_def upload_object_def hasattr_upload_object
      split: prod.splits option.splits)

lemma do_upload_swallowing_driver:
  assumes "driver h = Boto3Driver \<or> driver h = GoogleCloudStorageDriver \<or>
           driver h = AzureBlobServiceStorageDriver \<and>
           azure_blob_name_ok env (normalize_object_name env h dest_path)"
  shows "do_upload env h be (Some cb) w src_path dest_path retries =
           (Inr dest_path,
            snd (sdk_upload_file be src_path (normalize_object_name env h dest_path) w),
            [Callback CbNone (cb CbNone),
             UploadAttempt (Inr (fst (sdk_upload_file be src_path
               (normalize_object_name env h dest_path) w) = None)),
             Callback (CbPath dest_path) (cb (CbPath dest_path))])"
proof -
  obtain m where m: "nat (max 1 retries) = Suc m" by (cases "nat (max 1 retries)") auto
  show ?thesis
    by (simp add: do_upload_def Let_def m call_cb_def upload_from_file_swallows [OF assms])
qed

text \<open>
  C5. With an S3 helper, a callback, \<open>retries = 3\<close> and a backend whose upload raises
  every time, \<open>_do_upload\<close> calls \<open>cb(None)\<close>, makes one attempt, in which the driver
  catches the exception and returns \<open>False\<close>, then calls \<open>cb(dest_path)\<close> and returns the
  destination path: the callback is never called with \<open>False\<close> and nothing is raised.
  With an HTTP helper and the same backend there are three attempts, then \<open>cb(False)\<close>,
  and the last exception is raised.
\<close>

theorem do_upload_s3_failure_reported_as_success:
  "do_upload example_env example_helper failing_upload_backend (Some quiet_cb) 0
     ''/tmp/a.bin'' ''s3://new-bucket/a.bin'' 3 =
     (Inr ''s3://new-bucket/a.bin'', 1,
      [Callback CbNone None, UploadAttempt (Inr False),
       Callback (CbPath ''s3://new-bucket/a.bin'') None]) \<and>
   do_upload example_env example_http_helper failing_upload_backend (Some quiet_cb) 0
     ''/tmp/a.bin'' ''https://files.example.com/a.bin'' 3 =
     (Inl ConnectionError, 3,
      [Callback CbNone None, UploadAttempt (Inl ConnectionError),
       UploadAttempt (Inl ConnectionError), UploadAttempt (Inl ConnectionError),
       Callback CbFalse None])"
  by (simp add: do_upload_def upload_from_file_def upload_object_def hasattr_upload_object
      example_env_def example_helper_def example_http_helper_def failing_upload_backend_def
      quiet_cb_def call_cb_def eval_nat_numeral Let_def)

text \<open>A backend that fails twice and then works, behind the HTTP driver.\<close>

lemma do_upload_http_third_attempt:
  "do_upload example_env example_http_helper flaky_upload_backend (Some quiet_cb) 0
     ''/tmp/a.bin'' ''https://files.example.com/a.bin'' 5 =
     (Inr ''https://files.example.com/a.bin'', 3,
      [Callback CbNone None, UploadAttempt (Inl ConnectionError),
       UploadAttempt (Inl ConnectionError), UploadAttempt (Inr True),
       Callback (CbPath ''https://files.example.com/a.bin'') None])"
  by (simp add: do_upload_def upload_from_file_def upload_object_def hasattr_upload_object
      example_env_def example_http_helper_def flaky_upload_backend_def
      quiet_cb_def call_cb_def eval_nat_numeral Let_def)

section \<open>Listing under a prefix\<close>

text \<open>
  C8. When \<open>list\<close> is called with a non-empty prefix and returns, every returned name
  starts with the prefix the method works with (the given prefix without the base URL
  and the slashes after it, when it starts with the base URL) and none is equal to it.
\<close>

theorem list_only_under_prefix:
  assumes "list h list_container_objects (Some p) = Inr names" and "p \<noteq> []"
  shows "\<forall>name \<in> set names. prefix (list_prefix h p) name \<and> name \<noteq> list_prefix h p"
  using assms
  by (auto simp: list_def Let_def split: sum.splits if_splits)

theorem list_only_under_prefix_witness:
  "list example_helper example_listing (Some ''s3://new-bucket/a/'') = Inr [''a/x'', ''a/z/w''] \<and>
   list_prefix example_helper ''s3://new-bucket/a/'' = ''a/'' \<and>
   prefix ''a/'' ''a/x'' \<and> ''a/x'' \<noteq> ''a/'' \<and> prefix ''a/'' ''a/z/w'' \<and> ''a/z/w'' \<noteq> ''a/''"
proof -
  have run: "list example_helper example_listing (Some ''s3://new-bucket/a/'') = Inr [''a/x'', ''a/z/w'']"
    by (simp add: list_def list_prefix_def example_helper_def example_listing_def lstrip_char_def)
  have p: "list_prefix example_helper ''s3://new-bucket/a/'' = ''a/''"
    by (simp add: list_prefix_def example_helper_def lstrip_char_def)
  from list_only_under_prefix [OF run] run p show ?thesis by simp
qed

section \<open>Conforming a URL to a base URL\<close>

text \<open>
  The claim that \<open>conform_url\<close> always returns a URL that starts with the base URL fails
  for the empty \<open>folder_uri\<close>, which the first line of the method returns as it is.
\<close>

theorem conform_url_empty_counterexample:
  "conform_url example_env [] (Some ''s3://new-bucket'') = Inr [] \<and> \<not> prefix ''s3://new-bucket'' []"
  by (simp add: conform_url_def)

text \<open>
  C6, amended. For a non-empty \<open>folder_uri\<close> and any \<open>base_url\<close> argument, \<open>conform_url\<close>
  works with \<open>base_url\<close> when it is given and not empty, and otherwise (the default \<open>None\<close>,
  or the empty string) with the base URL that \<open>_resolve_base_url\<close> gives for \<open>folder_uri\<close>;
  an exception of that resolution is raised as it is. With the base URL \<open>b\<close> it works
  with: a \<open>folder_uri\<close> that starts with \<open>b\<close> is returned as it is; otherwise, when \<open>b\<close> is
  \<open>file://\<close>, the result is \<open>file://\<close> followed by the absolute path of \<open>folder_uri\<close> (with
  a slash between when the absolute path does not start with one); otherwise \<open>ValueError\<close>
  is raised. So every URL returned starts with \<open>b\<close>. The empty \<open>folder_uri\<close> is returned
  unchanged, whatever the base URL.
\<close>

theorem conform_url_prefixed:
  assumes "folder_uri \<noteq> []"
  shows "(\<forall>b. b \<noteq> [] \<longrightarrow> effective_base_url env folder_uri (Some b) = Inr b) \<and>
         effective_base_url env folder_uri None = resolve_base_url env folder_uri \<and>
         effective_base_url env folder_uri (Some []) = resolve_base_url env folder_uri \<and>
         (\<forall>e. effective_base_url env folder_uri base_url_arg = Inl e \<longrightarrow>
            conform_url env folder_uri base_url_arg = Inl e) \<and>
         (\<forall>b. effective_base_url env folder_uri base_url_arg = Inr b \<longrightarrow>
            conform_url env folder_uri base_url_arg =
              (if prefix b folder_uri then Inr folder_uri
               else if b = ''file://'' then
                 Inr (''file://'' @ (if prefix ''/'' (path_absolute env folder_uri) then [] else ''/'') @
                      path_absolute env folder_uri)
               else Inl ValueError) \<and>
            (\<forall>u. conform_url env folder_uri base_url_arg = Inr u \<longrightarrow> prefix b u)) \<and>
         conform_url env [] base_url_arg = Inr []"
  using assms by (auto simp: conform_url_def effective_base_url_def Let_def)

theorem conform_url_prefixed_witness:
  "conform_url example_env ''data/run1'' (Some ''file://'') = Inr ''file:///home/user/data/run1'' \<and>
   prefix ''file://'' ''file:///home/user/data/run1'' \<and>
   conform_url example_env ''gs://other/x'' (Some ''s3://new-bucket'') = Inl ValueError \<and>
   conform_url example_env ''s3://new-bucket/x'' (Some ''s3://new-bucket'') = Inr ''s3://new-bucket/x'' \<and>
   effective_base_url example_env ''data/run1'' None = Inr ''file://'' \<and>
   conform_url example_env ''data/run1'' None = Inr ''file:///home/user/data/run1'' \<and>
   conform_url example_env ''data/run1'' (Some []) = Inr ''file:///home/user/data/run1'' \<and>
   effective_base_url example_env ''s3://elsewhere/x'' None = Inr ''s3://new-bucket'' \<and>
   conform_url example_env ''s3://elsewhere/x'' None = Inl ValueError \<and>
   effective_base_url example_env ''gs://other/x'' None = Inl AttributeError \<and>
   conform_url example_env ''gs://other/x'' None = Inl AttributeError"
proof -
  have r: "resolve_base_url example_env ''data/run1'' = Inr ''file://''"
    "resolve_base_url example_env ''s3://elsewhere/x'' = Inr ''s3://new-bucket''"
    "resolve_base_url example_env ''gs://other/x'' = Inl AttributeError"
    by (simp_all add: resolve_base_url_def example_env_def)
  have a: "path_absolute example_env ''data/run1'' = ''/home/user/data/run1''"
    by (simp add: example_env_def)
  have 1: "conform_url example_env ''data/run1'' (Some ''file://'') = Inr ''file:///home/user/data/run1''"
    using conform_url_prefixed [of "''data/run1''" example_env "Some ''file://''"]
    by (simp add: a effective_base_url_def)
  have 2: "conform_url example_env ''gs://other/x'' (Some ''s3://new-bucket'') = Inl ValueError"
    using conform_url_prefixed [of "''gs://other/x''" example_env "Some ''s3://new-bucket''"]
    by (simp add: effective_base_url_def)
  have 3: "conform_url example_env ''s3://new-bucket/x'' (Some ''s3://new-bucket'') =
      Inr ''s3://new-bucket/x''"
    using conform_url_prefixed [of "''s3://new-bucket/x''" example_env "Some ''s3://new-bucket''"]
    by (simp add: effective_base_url_def)
  have e4: "effective_base_url example_env ''data/run1'' None = Inr ''file://''"
    "effective_base_url example_env ''data/run1'' (Some []) = Inr ''file://''"
    "effective_base_url example_env ''s3://elsewhere/x'' None = Inr ''s3://new-bucket''"
    "effective_base_url example_env ''gs://other/x'' None = Inl AttributeError"
    by (simp_all add: effective_base_url_def r)
  have 4: "conform_url example_env ''data/run1'' None = Inr ''file:///home/user/data/run1''"
    using conform_url_prefixed [of "''data/run1''" example_env None]
    by (simp add: a e4)
  have 5: "conform_url example_env ''data/run1'' (Some []) = Inr ''file:///home/user/data/run1''"
    using conform_url_prefixed [of "''data/run1''" example_env "Some []"]
    by (simp add: a e4)
  have 6: "conform_url example_env ''s3://elsewhere/x'' None = Inl ValueError"
    using conform_url_prefixed [of "''s3://elsewhere/x''" example_env None]
    by (simp add: e4)
  have 7: "conform_url example_env ''gs://other/x'' None = Inl AttributeError"
    using conform_url_prefixed [of "''gs://other/x''" example_env None]
    by (simp add: e4)
  from 1 2 3 4 5 6 7 e4 show ?thesis by simp
qed

section \<open>Getting a helper\<close>

text \<open>
  C7. When \<open>get\<close> reaches the constructor (the base URL was resolved, and the cache has no
  instance for the key or \<open>__force_create\<close> is set): if the constructor raises, \<open>get\<close>
  returns \<open>None\<close>, writes one line to the log, leaves the cache as it was and raises
  nothing; if the constructor returns an instance, \<open>get\<close> stores it in the cache and
  returns it.
\<close>

theorem get_construction_failure_is_null:
  assumes "resolve_base_url env (canonize_url (os_sep env) (path_substitutions env) url) = Inr base"
    and "helpers (base @ ''_'' @ thread_ident) = None \<or> force_create"
  shows "(\<forall>e. construct base (canonize_url (os_sep env) (path_substitutions env) url) = Inl e \<longrightarrow>
            (\<exists>msg. get env construct thread_ident force_create helpers url = (Inr None, helpers, [msg]))) \<and>
         (\<forall>inst. construct base (canonize_url (os_sep env) (path_substitutions env) url) = Inr inst \<longrightarrow>
            get env construct thread_ident force_create helpers url =
              (Inr (Some inst), helpers(base @ ''_'' @ thread_ident \<mapsto> inst), []))"
  using assms by (auto simp: get_def Let_def)

theorem get_construction_failure_is_null_witness:
  "get example_env failing_construct ''140'' False Map.empty ''s3://old-bucket/no-keys'' =
     (Inr None, Map.empty, [''Failed credentials for s3://new-bucket'']) \<and>
   fst (get example_env failing_construct ''140'' False Map.empty ''s3://old-bucket/data'') = Inr (Some 1)"
proof -
  have c: "canonize_url (os_sep example_env) (path_substitutions example_env) ''s3://old-bucket/no-keys'' =
      ''s3://new-bucket/no-keys''"
    by (simp add: canonize_url_def example_env_def scenario_rule_def)
  have r: "resolve_base_url example_env ''s3://new-bucket/no-keys'' = Inr ''s3://new-bucket''"
    by (simp add: resolve_base_url_def example_env_def)
  have f: "failing_construct ''s3://new-bucket'' ''s3://new-bucket/no-keys'' = Inl ValueError"
    by (simp add: failing_construct_def)
  have "\<exists>msg. get example_env failing_construct ''140'' False Map.empty ''s3://old-bucket/no-keys'' =
      (Inr None, Map.empty, [msg])"
    using get_construction_failure_is_null [where env = example_env and url = "''s3://old-bucket/no-keys''"
        and base = "''s3://new-bucket''" and helpers = Map.empty and thread_ident = "''140''"
        and force_create = False and construct = failing_construct]
    by (simp add: c r f)
  moreover have "canonize_url (os_sep example_env) (path_substitutions example_env) ''s3://old-bucket/data'' =
      ''s3://new-bucket/data''"
    by (simp add: canonize_url_def example_env_def scenario_rule_def)
  moreover have "resolve_base_url example_env ''s3://new-bucket/data'' = Inr ''s3://new-bucket''"
    by (simp add: resolve_base_url_def example_env_def)
  ultimately show ?thesis
    by (auto simp: get_def c r f failing_construct_def Let_def)
qed

text \<open>
  The base URL is resolved before the \<open>try\<close>: an exception of \<open>_resolve_base_url\<close>, such as
  the \<open>StorageError\<close> for an Azure URL without configuration, is raised by \<open>get\<close> itself.
\<close>

lemma get_resolve_error_is_raised:
  assumes "resolve_base_url env (canonize_url (os_sep env) (path_substitutions env) url) = Inl e"
  shows "get env construct thread_ident force_create helpers url = (Inl e, helpers, [])"
  using assms by (simp add: get_def Let_def)

lemma resolve_base_url_azure_unconfigured:
  assumes "url_scheme env url = ''azure''" and "azure_base_url env url = None"
  shows "resolve_base_url env url = Inl StorageError"
  using assms by (simp add: resolve_base_url_def Let_def)

section \<open>Download to a file\<close>

lemma hasattr_download_object: "hasattr_driver c ''download_object''"
  by (cases c) (simp_all add: hasattr_driver_def)

lemma transfer_to_temp_push:
  "transfer_to_temp h be temp fs =
     (fst (download_object (driver h) (sdk_transfer be) temp fs),
      snd (download_object (driver h) (sdk_transfer be) temp fs), [DownloadObject temp])"
  by (simp add: transfer_to_temp_def hasattr_download_object split: prod.splits)

lemma download_object_elsewhere:
  "q \<noteq> p \<Longrightarrow> snd (download_object c t p fs) q = fs q"
  by (simp add: download_object_def sdk_download_def split: option.splits)

lemma temp_differs: "temp_download_path env local_path \<noteq> local_path"
proof
  assume "temp_download_path env local_path = local_path"
  then have "length (temp_download_path env local_path) = length local_path" by simp
  then show False by (simp add: temp_download_path_def)
qed

lemma removed_is_absent:
  "(case os_remove p fs of Inl e \<Rightarrow> fs | Inr f \<Rightarrow> f) p = None"
  by (simp add: os_remove_def)

lemma removed_elsewhere:
  "q \<noteq> p \<Longrightarrow> (case os_remove p fs of Inl e \<Rightarrow> fs | Inr f \<Rightarrow> f) q = fs q"
  by (simp add: os_remove_def)

lemma complete_download_cases:
  assumes "complete_download env temp local_path fs = (r, fs2, tr2)" and "temp \<noteq> local_path"
  shows "(\<exists>b. b \<noteq> [] \<and> fs temp = Some b \<and> \<not> rename_fails env temp local_path \<and>
            r = Inr (Some local_path) \<and> fs2 local_path = Some b \<and> fs2 temp = None \<and>
            tr2 = Stat temp (Some (length b)) #
                  (if os_name env = ''posix'' then [] else [Remove local_path]) @ [Rename temp local_path]) \<or>
         (\<exists>b. b \<noteq> [] \<and> fs temp = Some b \<and> rename_fails env temp local_path \<and>
            r = Inl OSError \<and> fs2 temp = Some b \<and>
            fs2 local_path = (if os_name env = ''posix'' then fs local_path else None) \<and>
            tr2 = Stat temp (Some (length b)) #
                  (if os_name env = ''posix'' then [] else [Remove local_path]) @
                  [RenameFailed temp local_path]) \<or>
         (fs2 = fs \<and> fs temp = None \<and> r = Inl OSError \<and> tr2 = [Stat temp None]) \<or>
         (fs2 = fs \<and> fs temp = Some [] \<and> r = Inl (PyException ''downloaded a 0-sized file'') \<and>
            tr2 = [Stat temp (Some 0)])"
proof (cases "fs temp")
  case None
  with assms show ?thesis by (simp add: complete_download_def)
next
  case (Some b)
  show ?thesis
  proof (cases "b = []")
    case True
    with Some assms show ?thesis by (simp add: complete_download_def)
  next
    case False
    show ?thesis
    proof (cases "rename_fails env temp local_path")
      case True
      with False Some assms show ?thesis
        by (auto simp: complete_download_def os_rename_def os_remove_def Let_def split: if_splits)
    next
      case nf: False
      with False Some assms show ?thesis
        by (auto simp: complete_download_def os_rename_def os_remove_def Let_def split: if_splits)
    qed
  qed
qed

lemma download_try_body_cases:
  assumes "download_try_body env h be remote_path local_path overwrite_existing fs = (r, fs1, tr)"
  shows
    "(\<not> overwrite_existing \<and> is_file fs local_path \<and> r = Inr (Some local_path) \<and> fs1 = fs \<and> tr = []) \<or>
     ((overwrite_existing \<or> \<not> is_file fs local_path) \<and> fs1 = fs \<and>
        tr = [GetObject (normalize_object_name env h remote_path)] \<and>
        (r = Inr None \<and> get_object be (normalize_object_name env h remote_path) \<noteq> Inl ConnectionError \<or>
         r = Inl DownloadError \<and> get_object be (normalize_object_name env h remote_path) = Inl ConnectionError \<or>
         (\<exists>obj e. get_object be (normalize_object_name env h remote_path) = Inr obj \<and>
            size_error obj = Some e \<and> r = Inl e))) \<or>
     ((overwrite_existing \<or> \<not> is_file fs local_path) \<and>
        (\<exists>obj. get_object be (normalize_object_name env h remote_path) = Inr obj \<and> obj_truthy obj \<and>
           size_error obj \<in> {None, Some ValueError, Some AttributeError, Some KeyError}) \<and>
        tr = [GetObject (normalize_object_name env h remote_path),
              DownloadObject (temp_download_path env local_path)] \<and>
        fs1 = snd (download_object (driver h) (sdk_transfer be) (temp_download_path env local_path) fs) \<and>
        (\<exists>e. r = Inl e \<and>
           fst (download_object (driver h) (sdk_transfer be) (temp_download_path env local_path) fs) = Some e)) \<or>
     ((overwrite_existing \<or> \<not> is_file fs local_path) \<and>
        (\<exists>obj. get_object be (normalize_object_name env h remote_path) = Inr obj \<and> obj_truthy obj \<and>
           size_error obj \<in> {None, Some ValueError, Some AttributeError, Some KeyError}) \<and>
        fst (download_object (driver h) (sdk_transfer be) (temp_download_path env local_path) fs) = None \<and>
        (\<exists>tr2. complete_download env (temp_download_path env local_path) local_path
            (snd (download_object (driver h) (sdk_transfer be) (temp_download_path env local_path) fs)) =
              (r, fs1, tr2) \<and>
           tr = [GetObject (normalize_object_name env h remote_path),
                 DownloadObject (temp_download_path env local_path)] @ tr2))"
proof -
  let ?name = "normalize_object_name env h remote_path"
  let ?temp = "temp_download_path env local_path"
  let ?dl = "download_object (driver h) (sdk_transfer be) ?temp fs"
  show ?thesis
  proof (cases "\<not> overwrite_existing \<and> is_file fs local_path")
    case True
    with assms show ?thesis by (simp add: download_try_body_def)
  next
    case noskip: False
    show ?thesis
    proof (cases "get_object be ?name")
      case (Inl e)
      with noskip assms show ?thesis
        by (cases "e = ConnectionError")
           (auto simp: download_try_body_def helper_get_object_def Let_def)
    next
      case (Inr obj)
      show ?thesis
      proof (cases "obj_truthy obj")
        case False
        with Inr noskip assms show ?thesis
          by (auto simp: download_try_body_def helper_get_object_def Let_def)
      next
        case truthy: True
        show ?thesis
        proof (cases "size_error obj \<in> {None, Some ValueError, Some AttributeError, Some KeyError}")
          case False
          then obtain e where e: "size_error obj = Some e" by (cases "size_error obj") auto
          from False e have "size_error obj \<noteq> None \<and>
              size_error obj \<notin> {Some ValueError, Some AttributeError, Some KeyError}" by auto
          with e Inr noskip truthy assms have "r = Inl e" "fs1 = fs" "tr = [GetObject ?name]"
            by (auto simp: download_try_body_def helper_get_object_def Let_def split: if_splits)
          with e Inr noskip show ?thesis by auto
        next
          case caught: True
          then have nc: "\<not> (size_error obj \<noteq> None \<and>
              size_error obj \<notin> {Some ValueError, Some AttributeError, Some KeyError})" by auto
          show ?thesis
          proof (cases "fst ?dl")
            case (Some e)
            with nc Inr noskip truthy assms have "r = Inl e" "fs1 = snd ?dl"
              "tr = [GetObject ?name, DownloadObject ?temp]"
              by (auto simp: download_try_body_def helper_get_object_def transfer_to_temp_push
                  Let_def simp del: insert_iff split: if_splits)
            with Some Inr noskip truthy caught show ?thesis by blast
          next
            case None
            obtain r2 fs2 tr2 where
              cd: "complete_download env ?temp local_path (snd ?dl) = (r2, fs2, tr2)"
              by (rule prod_cases3)
            with None nc Inr noskip truthy assms have "r = r2" "fs1 = fs2"
              "tr = [GetObject ?name, DownloadObject ?temp] @ tr2"
              by (auto simp: download_try_body_def helper_get_object_def transfer_to_temp_push
                  Let_def simp del: insert_iff split: if_splits)
            with cd None Inr noskip truthy caught show ?thesis by blast
          qed
        qed
      qed
    qed
  qed
qed

lemma download_to_file_direct:
  assumes "\<not> (get_direct_access env (driver h)
               (canonize_url (os_sep env) (path_substitutions env) remote_path) = Inr None \<or>
             get_direct_access env (driver h)
               (canonize_url (os_sep env) (path_substitutions env) remote_path) = Inr (Some []))"
  shows "\<exists>r. download_to_file env h be remote_path local_path overwrite_existing delete_on_failure fs =
           (r, fs, [])"
  using assms
  by (cases "get_direct_access env (driver h)
               (canonize_url (os_sep env) (path_substitutions env) remote_path)")
     (auto simp: download_to_file_def Let_def)

lemma download_to_file_no_direct:
  assumes "get_direct_access env (driver h)
               (canonize_url (os_sep env) (path_substitutions env) remote_path) = Inr None \<or>
           get_direct_access env (driver h)
               (canonize_url (os_sep env) (path_substitutions env) remote_path) = Inr (Some [])"
  shows "download_to_file env h be remote_path local_path overwrite_existing delete_on_failure fs =
           download_except env local_path delete_on_failure
             (download_try_body env h be (canonize_url (os_sep env) (path_substitutions env) remote_path)
                local_path overwrite_existing fs)"
  using assms by (auto simp: download_to_file_def Let_def)

lemma download_except_cases:
  assumes "download_except env local_path delete_on_failure (rb, fs1, trb) = (res, fs', tr)"
  shows "(\<exists>r. rb = Inr r \<and> res = Inr r \<and> fs' = fs1 \<and> tr = trb) \<or>
         (rb = Inl DownloadError \<and> res = Inl DownloadError \<and> fs' = fs1 \<and> tr = trb) \<or>
         (\<exists>e. rb = Inl e \<and> e \<noteq> DownloadError \<and> res = Inr None \<and> \<not> delete_on_failure \<and>
              fs' = fs1 \<and> tr = trb) \<or>
         (\<exists>e. rb = Inl e \<and> e \<noteq> DownloadError \<and> res = Inr None \<and> delete_on_failure \<and>
              fs' = (case os_remove (temp_download_path env local_path) fs1 of
                       Inl e' \<Rightarrow> fs1 | Inr f \<Rightarrow> f) \<and>
              tr = trb @ [Remove (temp_download_path env local_path)])"
  using assms by (cases rb) (auto simp: download_except_def split: if_splits)

lemma download_try_body_trace:
  assumes "download_try_body env h be remote_path local_path overwrite_existing fs = (rb, fs1, trb)"
  shows "(\<forall>ev \<in> set trb. \<forall>p. writes_to ev = Some p \<longrightarrow> p = temp_download_path env local_path) \<and>
         (\<forall>ev \<in> set trb. \<not> stream_copy_event ev) \<and>
         (\<forall>src dst. Rename src dst \<in> set trb \<longrightarrow>
            src = temp_download_path env local_path \<and> dst = local_path \<and>
            rb = Inr (Some local_path) \<and>
            fst (download_object (driver h) (sdk_transfer be) (temp_download_path env local_path) fs) =
              None \<and>
            (\<exists>b. b \<noteq> [] \<and>
               snd (download_object (driver h) (sdk_transfer be) (temp_download_path env local_path) fs)
                 (temp_download_path env local_path) = Some b \<and>
               fs1 local_path = Some b \<and> fs1 (temp_download_path env local_path) = None \<and>
               trb = [GetObject (normalize_object_name env h remote_path),
                      DownloadObject (temp_download_path env local_path),
                      Stat (temp_download_path env local_path) (Some (length b))] @
                     (if os_name env = ''posix'' then [] else [Remove local_path]) @
                     [Rename (temp_download_path env local_path) local_path])) \<and>
         (\<forall>src dst. RenameFailed src dst \<in> set trb \<longrightarrow>
            src = temp_download_path env local_path \<and> dst = local_path \<and> rb = Inl OSError) \<and>
         (fs1 local_path = fs local_path \<or>
          Rename (temp_download_path env local_path) local_path \<in> set trb \<or>
          os_name env \<noteq> ''posix'' \<and> fs1 local_path = None \<and>
          RenameFailed (temp_download_path env local_path) local_path \<in> set trb)"
proof -
  let ?temp = "temp_download_path env local_path"
  let ?name = "normalize_object_name env h remote_path"
  let ?dl = "download_object (driver h) (sdk_transfer be) ?temp fs"
  let ?fsT = "snd ?dl"
  have td: "?temp \<noteq> local_path" by (rule temp_differs)
  have keep: "?fsT local_path = fs local_path"
    using td by (simp add: download_object_elsewhere)
  from download_try_body_cases [OF assms]
  have "(fs1 = fs \<and> trb = []) \<or> (fs1 = fs \<and> trb = [GetObject ?name]) \<or>
        (fs1 = ?fsT \<and> trb = [GetObject ?name, DownloadObject ?temp]) \<or>
        (\<exists>tr2. fst ?dl = None \<and> complete_download env ?temp local_path ?fsT = (rb, fs1, tr2) \<and>
           trb = [GetObject ?name, DownloadObject ?temp] @ tr2)"
    by (elim disjE conjE exE) simp_all
  then consider (skip) "fs1 = fs" "trb = []"
    | (early) "fs1 = fs" "trb = [GetObject ?name]"
    | (failed) "fs1 = ?fsT" "trb = [GetObject ?name, DownloadObject ?temp]"
    | (finish) tr2 where "fst ?dl = None" "complete_download env ?temp local_path ?fsT = (rb, fs1, tr2)"
        "trb = [GetObject ?name, DownloadObject ?temp] @ tr2"
    by blast
  then show ?thesis
  proof cases
    case skip
    then show ?thesis by simp
  next
    case early
    then show ?thesis by simp
  next
    case failed
    with keep show ?thesis by simp
  next
    case finish
    from complete_download_cases [OF finish(2) td] show ?thesis
    proof (elim disjE exE conjE, goal_cases)
      case renamed: (1 b)
      have shape: "trb = [GetObject ?name, DownloadObject ?temp, Stat ?temp (Some (length b))] @
               (if os_name env = ''posix'' then [] else [Remove local_path]) @ [Rename ?temp local_path]"
        using finish(3) renamed(7) by simp
      have w: "\<forall>ev \<in> set trb. \<forall>p. writes_to ev = Some p \<longrightarrow> p = ?temp"
        using shape by auto
      have s: "\<forall>ev \<in> set trb. \<not> stream_copy_event ev"
        using shape by auto
      have r: "\<forall>src dst. Rename src dst \<in> set trb \<longrightarrow> src = ?temp \<and> dst = local_path"
        using shape by auto
      have f: "\<forall>src dst. RenameFailed src dst \<notin> set trb"
        using shape by auto
      have m: "Rename ?temp local_path \<in> set trb" using shape by simp
      have ex: "\<exists>b. b \<noteq> [] \<and> ?fsT ?temp = Some b \<and> fs1 local_path = Some b \<and> fs1 ?temp = None \<and>
          trb = [GetObject ?name, DownloadObject ?temp, Stat ?temp (Some (length b))] @
               (if os_name env = ''posix'' then [] else [Remove local_path]) @ [Rename ?temp local_path]"
        using renamed(1,2,5,6) shape by blast
      show ?thesis
      proof (intro conjI)
        show "\<forall>ev \<in> set trb. \<forall>p. writes_to ev = Some p \<longrightarrow> p = ?temp" by (rule w)
        show "\<forall>ev \<in> set trb. \<not> stream_copy_event ev" by (rule s)
        show "\<forall>src dst. Rename src dst \<in> set trb \<longrightarrow>
            src = ?temp \<and> dst = local_path \<and> rb = Inr (Some local_path) \<and> fst ?dl = None \<and>
            (\<exists>b. b \<noteq> [] \<and> ?fsT ?temp = Some b \<and> fs1 local_path = Some b \<and> fs1 ?temp = None \<and>
               trb = [GetObject ?name, DownloadObject ?temp, Stat ?temp (Some (length b))] @
                     (if os_name env = ''posix'' then [] else [Remove local_path]) @
                     [Rename ?temp local_path])"
        proof (intro allI impI conjI)
          fix src dst
          assume a: "Rename src dst \<in> set trb"
          from r a show "src = ?temp" by blast
          from r a show "dst = local_path" by blast
          show "rb = Inr (Some local_path)" by (rule renamed(4))
          show "fst ?dl = None" by (rule finish(1))
          show "\<exists>b. b \<noteq> [] \<and> ?fsT ?temp = Some b \<and> fs1 local_path = Some b \<and> fs1 ?temp = None \<and>
               trb = [GetObject ?name, DownloadObject ?temp, Stat ?temp (Some (length b))] @
                     (if os_name env = ''posix'' then [] else [Remove local_path]) @
                     [Rename ?temp local_path]" by (rule ex)
        qed
        show "\<forall>src dst. RenameFailed src dst \<in> set trb \<longrightarrow>
            src = ?temp \<and> dst = local_path \<and> rb = Inl OSError"
          using f by blast
        show "fs1 local_path = fs local_path \<or> Rename ?temp local_path \<in> set trb \<or>
            os_name env \<noteq> ''posix'' \<and> fs1 local_path = None \<and> RenameFailed ?temp local_path \<in> set trb"
          using m by blast
      qed
    next
      case refused: (2 b)
      have shape: "trb = [GetObject ?name, DownloadObject ?temp, Stat ?temp (Some (length b))] @
               (if os_name env = ''posix'' then [] else [Remove local_path]) @
               [RenameFailed ?temp local_path]"
        using finish(3) refused(7) by simp
      have w: "\<forall>ev \<in> set trb. \<forall>p. writes_to ev = Some p \<longrightarrow> p = ?temp"
        using shape by auto
      have s: "\<forall>ev \<in> set trb. \<not> stream_copy_event ev"
        using shape by auto
      have r: "\<forall>src dst. Rename src dst \<notin> set trb"
        using shape by auto
      have f: "\<forall>src dst. RenameFailed src dst \<in> set trb \<longrightarrow> src = ?temp \<and> dst = local_path"
        using shape by auto
      have m: "RenameFailed ?temp local_path \<in> set trb" using shape by simp
      have l: "fs1 local_path = fs local_path \<or> os_name env \<noteq> ''posix'' \<and> fs1 local_path = None"
        using refused(6) keep by auto
      show ?thesis
      proof (intro conjI)
        show "\<forall>ev \<in> set trb. \<forall>p. writes_to ev = Some p \<longrightarrow> p = ?temp" by (rule w)
        show "\<forall>ev \<in> set trb. \<not> stream_copy_event ev" by (rule s)
        show "\<forall>src dst. Rename src dst \<in> set trb \<longrightarrow>
            src = ?temp \<and> dst = local_path \<and> rb = Inr (Some local_path) \<and> fst ?dl = None \<and>
            (\<exists>b. b \<noteq> [] \<and> ?fsT ?temp = Some b \<and> fs1 local_path = Some b \<and> fs1 ?temp = None \<and>
               trb = [GetObject ?name, DownloadObject ?temp, Stat ?temp (Some (length b))] @
                     (if os_name env = ''posix'' then [] else [Remove local_path]) @
                     [Rename ?temp local_path])"
          using r by blast
        show "\<forall>src dst. RenameFailed src dst \<in> set trb \<longrightarrow>
            src = ?temp \<and> dst = local_path \<and> rb = Inl OSError"
          using f refused(4) by blast
        show "fs1 local_path = fs local_path \<or> Rename ?temp local_path \<in> set trb \<or>
            os_name env \<noteq> ''posix'' \<and> fs1 local_path = None \<and> RenameFailed ?temp local_path \<in> set trb"
          using m l by blast
      qed
    next
      case nofile: 3
      with finish(3) keep show ?thesis by simp
    next
      case empty: 4
      with finish(3) keep show ?thesis by simp
    qed
  qed
qed

text \<open>
  C1. In every call of \<open>download_to_file\<close> the temp path
  \<open>{local_path}_{timestamp}.partially\<close> differs from \<open>local_path\<close>, and every event that
  writes downloaded bytes writes to the temp path. A rename is done only from the temp
  path to \<open>local_path\<close>, and only in a call in which the driver's \<open>download_object\<close>
  returned without raising, the size check read the positive size of what it left in the
  temp file, and, where \<open>os.name\<close> is not \<open>posix\<close>, \<open>local_path\<close> was removed between
  the size check and the rename: the events of such a call are exactly the fetch, the
  download, the size check, that removal and the rename, and it returns \<open>local_path\<close>,
  which holds what the driver left in the temp file. A call of \<open>os.rename\<close> that raises is
  from the temp path to \<open>local_path\<close> too, and the call of \<open>download_to_file\<close> returns
  \<open>None\<close>. After any call \<open>local_path\<close> holds what it held before, or the content put
  there by the rename, or, where \<open>os.name\<close> is not \<open>posix\<close> and \<open>os.rename\<close> raised after
  the removal, nothing.
\<close>

theorem download_to_file_temp_then_rename:
  assumes run: "download_to_file env h be remote_path local_path overwrite_existing delete_on_failure fs =
                  (res, fs', tr)"
  shows "temp_download_path env local_path \<noteq> local_path \<and>
         (\<forall>ev \<in> set tr. \<forall>p. writes_to ev = Some p \<longrightarrow> p = temp_download_path env local_path) \<and>
         (\<forall>src dst. Rename src dst \<in> set tr \<longrightarrow>
            src = temp_download_path env local_path \<and> dst = local_path \<and>
            res = Inr (Some local_path) \<and>
            fst (download_object (driver h) (sdk_transfer be) (temp_download_path env local_path) fs) =
              None \<and>
            (\<exists>b. b \<noteq> [] \<and>
               snd (download_object (driver h) (sdk_transfer be) (temp_download_path env local_path) fs)
                 (temp_download_path env local_path) = Some b \<and>
               fs' local_path = Some b \<and> fs' (temp_download_path env local_path) = None \<and>
               tr = [GetObject (normalize_object_name env h
                       (canonize_url (os_sep env) (path_substitutions env) remote_path)),
                     DownloadObject (temp_download_path env local_path),
                     Stat (temp_download_path env local_path) (Some (length b))] @
                    (if os_name env = ''posix'' then [] else [Remove local_path]) @
                    [Rename (temp_download_path env local_path) local_path])) \<and>
         (\<forall>src dst. RenameFailed src dst \<in> set tr \<longrightarrow>
            src = temp_download_path env local_path \<and> dst = local_path \<and> res = Inr None) \<and>
         (fs' local_path = fs local_path \<or>
          Rename (temp_download_path env local_path) local_path \<in> set tr \<or>
          os_name env \<noteq> ''posix'' \<and> fs' local_path = None \<and>
          RenameFailed (temp_download_path env local_path) local_path \<in> set tr)"
proof -
  let ?temp = "temp_download_path env local_path"
  let ?rp = "canonize_url (os_sep env) (path_substitutions env) remote_path"
  let ?nodirect = "get_direct_access env (driver h) ?rp = Inr None \<or>
                   get_direct_access env (driver h) ?rp = Inr (Some [])"
  have td: "?temp \<noteq> local_path" by (rule temp_differs)
  show ?thesis
  proof (cases ?nodirect)
    case False
    from download_to_file_direct [OF False, of be local_path overwrite_existing delete_on_failure fs] run
    have "tr = []" "fs' = fs" by auto
    with td show ?thesis by simp
  next
    case True
    obtain rb fs1 trb where
      body: "download_try_body env h be ?rp local_path overwrite_existing fs = (rb, fs1, trb)"
      by (cases "download_try_body env h be ?rp local_path overwrite_existing fs") auto
    from download_to_file_no_direct [OF True] run body
    have ex: "download_except env local_path delete_on_failure (rb, fs1, trb) = (res, fs', tr)"
      by simp
    note bt = download_try_body_trace [OF body]
    from bt have w: "\<forall>ev \<in> set trb. \<forall>p. writes_to ev = Some p \<longrightarrow> p = ?temp" by blast
    from bt have rf: "\<forall>src dst. RenameFailed src dst \<in> set trb \<longrightarrow>
        src = ?temp \<and> dst = local_path \<and> rb = Inl OSError" by blast
    from bt have loc: "fs1 local_path = fs local_path \<or> Rename ?temp local_path \<in> set trb \<or>
        os_name env \<noteq> ''posix'' \<and> fs1 local_path = None \<and> RenameFailed ?temp local_path \<in> set trb"
      by blast
    from download_except_cases [OF ex]
    consider (same) r where "rb = Inr r" "res = rb" "fs' = fs1" "tr = trb"
      | (again) "rb = Inl DownloadError" "res = rb" "fs' = fs1" "tr = trb"
      | (null) e where "rb = Inl e" "res = Inr None" "fs' = fs1" "tr = trb"
      | (cleaned) e where "rb = Inl e" "res = Inr None"
          "fs' = (case os_remove ?temp fs1 of Inl e' \<Rightarrow> fs1 | Inr f \<Rightarrow> f)" "tr = trb @ [Remove ?temp]"
      by blast
    then show ?thesis
    proof cases
      case same
      from rf same(1) have nf: "\<forall>src dst. RenameFailed src dst \<notin> set trb" by auto
      show ?thesis unfolding same(2,3,4) using bt td nf by blast
    next
      case again
      from bt again(1) have nr: "\<forall>src dst. Rename src dst \<notin> set trb" by auto
      from rf again(1) have nf: "\<forall>src dst. RenameFailed src dst \<notin> set trb" by auto
      from loc nr nf have "fs1 local_path = fs local_path" by blast
      with nr nf w again td show ?thesis by simp
    next
      case null
      from bt null(1) have nr: "\<forall>src dst. Rename src dst \<notin> set trb" by auto
      from nr loc w rf null td show ?thesis by auto
    next
      case cleaned
      from bt cleaned(1) have nr: "\<forall>src dst. Rename src dst \<notin> set trb" by auto
      have "fs' local_path = fs1 local_path"
        using cleaned(3) td by (simp add: removed_elsewhere)
      with nr loc w rf cleaned td show ?thesis by auto
    qed
  qed
qed

text \<open>
  C9. When no direct access applies, \<open>overwrite_existing\<close> is false and \<open>local_path\<close> is
  an existing file, \<open>download_to_file\<close> returns \<open>local_path\<close>, leaves every file as it was
  and calls the driver for nothing: no object is fetched.
\<close>

theorem download_skips_existing_file:
  assumes "get_direct_access env (driver h)
             (canonize_url (os_sep env) (path_substitutions env) remote_path) = Inr d"
    and "d = None \<or> d = Some []"
    and "\<not> overwrite_existing"
    and "is_file fs local_path"
  shows "download_to_file env h be remote_path local_path overwrite_existing delete_on_failure fs =
           (Inr (Some local_path), fs, [])"
  using assms
  by (auto simp: download_to_file_def download_try_body_def download_except_def Let_def)

text \<open>
  C10. \<open>download_object\<close> is among the methods \<open>_Driver\<close> declares and among the methods
  each of the five driver classes defines, so \<open>hasattr(self._driver, 'download_object')\<close>
  holds for every driver, and no call of \<open>download_to_file\<close> has an event of the
  chunk-copy branch (\<open>download_object_as_stream\<close>, opening the temp file, writing a chunk).
\<close>

theorem download_object_always_selected:
  "''download_object'' \<in> set Driver_abstract_methods \<and>
   ''download_object'' \<in> set (class_methods c) \<and>
   hasattr_driver c ''download_object'' \<and>
   (\<forall>res fs' tr.
      download_to_file env h be remote_path local_path overwrite_existing delete_on_failure fs =
        (res, fs', tr) \<longrightarrow> (\<forall>ev \<in> set tr. \<not> stream_copy_event ev))"
proof -
  have a: "''download_object'' \<in> set Driver_abstract_methods"
    by (simp add: Driver_abstract_methods_def)
  have b: "''download_object'' \<in> set (class_methods c)"
    by (cases c) simp_all
  have c: "hasattr_driver c ''download_object''"
    using b by (simp add: hasattr_driver_def)
  have d: "\<forall>ev \<in> set tr. \<not> stream_copy_event ev"
    if run: "download_to_file env h be remote_path local_path overwrite_existing delete_on_failure fs =
        (res, fs', tr)" for res fs' tr
  proof -
    let ?rp = "canonize_url (os_sep env) (path_substitutions env) remote_path"
    let ?nodirect = "get_direct_access env (driver h) ?rp = Inr None \<or>
                     get_direct_access env (driver h) ?rp = Inr (Some [])"
    show ?thesis
    proof (cases ?nodirect)
      case False
      from download_to_file_direct [OF False, of be local_path overwrite_existing delete_on_failure fs] run
      have "tr = []" by auto
      then show ?thesis by simp
    next
      case True
      obtain rb fs1 trb where
        body: "download_try_body env h be ?rp local_path overwrite_existing fs = (rb, fs1, trb)"
        by (cases "download_try_body env h be ?rp local_path overwrite_existing fs") auto
      from download_to_file_no_direct [OF True] run body
      have ex: "download_except env local_path delete_on_failure (rb, fs1, trb) = (res, fs', tr)"
        by simp
      from download_try_body_trace [OF body]
      have s: "\<forall>ev \<in> set trb. \<not> stream_copy_event ev" by blast
      from download_except_cases [OF ex]
      have "tr = trb \<or> tr = trb @ [Remove (temp_download_path env local_path)]" by blast
      with s show ?thesis by auto
    qed
  qed
  from a b c d show ?thesis by blast
qed

lemma download_except_only_download_error:
  assumes "download_except env local_path delete_on_failure body = (res, fs', tr)" and "res = Inl e"
  shows "e = DownloadError"
proof -
  obtain rb fs1 trb where b: "body = (rb, fs1, trb)" by (cases body) auto
  from download_except_cases [OF assms(1) [unfolded b]] assms(2) show ?thesis by auto
qed

lemma download_except_other_error:
  assumes "download_except env local_path delete_on_failure body = (res, fs', tr)"
    and "fst body = Inl e" and "e \<noteq> DownloadError"
  shows "res = Inr None \<and> (delete_on_failure \<longrightarrow> fs' (temp_download_path env local_path) = None)"
proof -
  obtain fs1 trb where b: "body = (Inl e, fs1, trb)" using assms(2) by (cases body) auto
  from assms(1) assms(3) show ?thesis
    unfolding b by (auto simp: download_except_def removed_is_absent split: if_splits)
qed

lemma download_except_download_error:
  assumes "download_except env local_path delete_on_failure body = (res, fs', tr)"
    and "fst body = Inl DownloadError"
  shows "res = Inl DownloadError"
proof -
  obtain fs1 trb where b: "body = (Inl DownloadError, fs1, trb)" using assms(2) by (cases body) auto
  from assms(1) show ?thesis
    unfolding b by (simp add: download_except_def)
qed

lemma download_try_body_connection_error:
  assumes "overwrite_existing \<or> \<not> is_file fs local_path"
    and "get_object be (normalize_object_name env h remote_path) = Inl ConnectionError"
  shows "fst (download_try_body env h be remote_path local_path overwrite_existing fs) = Inl DownloadError"
  using assms by (auto simp: download_try_body_def helper_get_object_def Let_def)

lemma download_try_body_fetch_error:
  assumes "overwrite_existing \<or> \<not> is_file fs local_path"
    and "get_object be (normalize_object_name env h remote_path) = Inl e" and "e \<noteq> ConnectionError"
  shows "download_try_body env h be remote_path local_path overwrite_existing fs =
           (Inr None, fs, [GetObject (normalize_object_name env h remote_path)])"
  using assms by (auto simp: download_try_body_def helper_get_object_def Let_def)

lemma download_try_body_falsy_object:
  assumes "overwrite_existing \<or> \<not> is_file fs local_path"
    and "get_object be (normalize_object_name env h remote_path) = Inr obj" and "\<not> obj_truthy obj"
  shows "download_try_body env h be remote_path local_path overwrite_existing fs =
           (Inr None, fs, [GetObject (normalize_object_name env h remote_path)])"
  using assms by (auto simp: download_try_body_def helper_get_object_def Let_def)

lemma download_try_body_size_error:
  assumes "overwrite_existing \<or> \<not> is_file fs local_path"
    and "get_object be (normalize_object_name env h remote_path) = Inr obj" and "obj_truthy obj"
    and "size_error obj = Some e" and "e \<noteq> ValueError" and "e \<noteq> AttributeError" and "e \<noteq> KeyError"
  shows "fst (download_try_body env h be remote_path local_path overwrite_existing fs) = Inl e"
  using assms by (auto simp: download_try_body_def helper_get_object_def Let_def)

text \<open>
  Once the object is fetched and its size read (an exception of that read being one of
  the three that are caught), the body is the transfer followed by the completion.
\<close>

lemma download_try_body_transfer:
  assumes "overwrite_existing \<or> \<not> is_file fs local_path"
    and "get_object be (normalize_object_name env h remote_path) = Inr obj" and "obj_truthy obj"
    and "size_error obj \<in> {None, Some ValueError, Some AttributeError, Some KeyError}"
  shows "fst (download_try_body env h be remote_path local_path overwrite_existing fs) =
           (case fst (download_object (driver h) (sdk_transfer be)
                        (temp_download_path env local_path) fs) of
              Some e \<Rightarrow> Inl e
            | None \<Rightarrow>
                fst (complete_download env (temp_download_path env local_path) local_path
                  (snd (download_object (driver h) (sdk_transfer be)
                          (temp_download_path env local_path) fs))))"
proof -
  from assms(4) have nc: "\<not> (size_error obj \<noteq> None \<and>
      size_error obj \<notin> {Some ValueError, Some AttributeError, Some KeyError})" by auto
  with assms(1-3) show ?thesis
    by (auto simp: download_try_body_def helper_get_object_def transfer_to_temp_push Let_def
        simp del: insert_iff split: if_splits option.splits prod.splits)
qed

lemma download_try_body_transfer_raises:
  assumes "overwrite_existing \<or> \<not> is_file fs local_path"
    and "get_object be (normalize_object_name env h remote_path) = Inr obj" and "obj_truthy obj"
    and "size_error obj \<in> {None, Some ValueError, Some AttributeError, Some KeyError}"
    and "fst (download_object (driver h) (sdk_transfer be) (temp_download_path env local_path) fs) = Some e"
  shows "fst (download_try_body env h be remote_path local_path overwrite_existing fs) = Inl e"
  by (simp add: download_try_body_transfer [OF assms(1-4)] assms(5))

lemma download_try_body_zero_bytes:
  assumes "overwrite_existing \<or> \<not> is_file fs local_path"
    and "get_object be (normalize_object_name env h remote_path) = Inr obj" and "obj_truthy obj"
    and "size_error obj \<in> {None, Some ValueError, Some AttributeError, Some KeyError}"
    and "fst (download_object (driver h) (sdk_transfer be) (temp_download_path env local_path) fs) = None"
    and "snd (download_object (driver h) (sdk_transfer be) (temp_download_path env local_path) fs)
           (temp_download_path env local_path) = Some []"
  shows "fst (download_try_body env h be remote_path local_path overwrite_existing fs) =
           Inl (PyException ''downloaded a 0-sized file'')"
  by (simp add: download_try_body_transfer [OF assms(1-4)] assms(5,6) complete_download_def)

lemma download_try_body_no_file:
  assumes "overwrite_existing \<or> \<not> is_file fs local_path"
    and "get_object be (normalize_object_name env h remote_path) = Inr obj" and "obj_truthy obj"
    and "size_error obj \<in> {None, Some ValueError, Some AttributeError, Some KeyError}"
    and "fst (download_object (driver h) (sdk_transfer be) (temp_download_path env local_path) fs) = None"
    and "snd (download_object (driver h) (sdk_transfer be) (temp_download_path env local_path) fs)
           (temp_download_path env local_path) = None"
  shows "fst (download_try_body env h be remote_path local_path overwrite_existing fs) = Inl OSError"
  by (simp add: download_try_body_transfer [OF assms(1-4)] assms(5,6) complete_download_def)

lemma download_try_body_rename_refused:
  assumes "overwrite_existing \<or> \<not> is_file fs local_path"
    and "get_object be (normalize_object_name env h remote_path) = Inr obj" and "obj_truthy obj"
    and "size_error obj \<in> {None, Some ValueError, Some AttributeError, Some KeyError}"
    and "fst (download_object (driver h) (sdk_transfer be) (temp_download_path env local_path) fs) = None"
    and "snd (download_object (driver h) (sdk_transfer be) (temp_download_path env local_path) fs)
           (temp_download_path env local_path) = Some b" and "b \<noteq> []"
    and "rename_fails env (temp_download_path env local_path) local_path"
  shows "fst (download_try_body env h be remote_path local_path overwrite_existing fs) = Inl OSError"
proof -
  let ?temp = "temp_download_path env local_path"
  let ?fsT = "snd (download_object (driver h) (sdk_transfer be) ?temp fs)"
  obtain r fs2 tr2 where cd: "complete_download env ?temp local_path ?fsT = (r, fs2, tr2)"
    by (rule prod_cases3)
  from complete_download_cases [OF cd temp_differs] assms(6-8) have "r = Inl OSError"
    by (elim disjE exE conjE) simp_all
  with cd show ?thesis
    by (simp add: download_try_body_transfer [OF assms(1-4)] assms(5))
qed

lemma download_try_body_success:
  assumes noskip: "overwrite_existing \<or> \<not> is_file fs local_path"
    and body: "download_try_body env h be remote_path local_path overwrite_existing fs =
           (Inr (Some local_path), fs1, trb)"
  shows "(\<exists>obj. get_object be (normalize_object_name env h remote_path) = Inr obj \<and> obj_truthy obj \<and>
            size_error obj \<in> {None, Some ValueError, Some AttributeError, Some KeyError}) \<and>
         fst (download_object (driver h) (sdk_transfer be) (temp_download_path env local_path) fs) = None \<and>
         (\<exists>b. b \<noteq> [] \<and>
            snd (download_object (driver h) (sdk_transfer be) (temp_download_path env local_path) fs)
              (temp_download_path env local_path) = Some b) \<and>
         \<not> rename_fails env (temp_download_path env local_path) local_path"
proof -
  let ?name = "normalize_object_name env h remote_path"
  let ?temp = "temp_download_path env local_path"
  let ?dl = "download_object (driver h) (sdk_transfer be) ?temp fs"
  let ?body = "download_try_body env h be remote_path local_path overwrite_existing fs"
  from body have res: "fst ?body = Inr (Some local_path)" by simp
  show ?thesis
  proof (cases "get_object be ?name")
    case (Inl e)
    show ?thesis
    proof (cases "e = ConnectionError")
      case True
      with download_try_body_connection_error [OF noskip] Inl res show ?thesis by simp
    next
      case False
      from download_try_body_fetch_error [OF noskip Inl False] res show ?thesis by simp
    qed
  next
    case (Inr obj)
    show ?thesis
    proof (cases "obj_truthy obj")
      case False
      from download_try_body_falsy_object [OF noskip Inr False] res show ?thesis by simp
    next
      case truthy: True
      show ?thesis
      proof (cases "size_error obj \<in> {None, Some ValueError, Some AttributeError, Some KeyError}")
        case False
        then obtain e where e: "size_error obj = Some e"
          and ne: "e \<noteq> ValueError" "e \<noteq> AttributeError" "e \<noteq> KeyError"
          by (cases "size_error obj") auto
        from download_try_body_size_error [OF noskip Inr truthy e ne] res show ?thesis by simp
      next
        case caught: True
        note tr = download_try_body_transfer [OF noskip Inr truthy caught]
        show ?thesis
        proof (cases "fst ?dl")
          case (Some e)
          with tr res show ?thesis by simp
        next
          case None
          with tr res have c: "fst (complete_download env ?temp local_path (snd ?dl)) =
              Inr (Some local_path)" by simp
          obtain r fs2 tr2 where cd: "complete_download env ?temp local_path (snd ?dl) = (r, fs2, tr2)"
            by (rule prod_cases3)
          with c have r: "r = Inr (Some local_path)" by simp
          from complete_download_cases [OF cd temp_differs] r
          have fin: "(\<exists>b. b \<noteq> [] \<and> snd ?dl ?temp = Some b) \<and> \<not> rename_fails env ?temp local_path"
            by (elim disjE exE conjE) simp_all
          have ob: "\<exists>obj. get_object be ?name = Inr obj \<and> obj_truthy obj \<and>
              size_error obj \<in> {None, Some ValueError, Some AttributeError, Some KeyError}"
            using Inr truthy caught by (intro exI [of _ obj] conjI)
          from ob None fin show ?thesis by (intro conjI) (elim conjE, assumption)+
        qed
      qed
    qed
  qed
qed

lemma download_try_body_returns:
  assumes "download_try_body env h be remote_path local_path overwrite_existing fs = (Inr r, fs1, trb)"
  shows "r = None \<or> r = Some local_path"
proof -
  from download_try_body_cases [OF assms]
  have "r = Some local_path \<or> r = None \<or>
        (\<exists>tr2. complete_download env (temp_download_path env local_path) local_path
            (snd (download_object (driver h) (sdk_transfer be) (temp_download_path env local_path) fs)) =
              (Inr r, fs1, tr2))"
    by (elim disjE exE conjE) (simp_all del: insert_iff)
  then consider "r = Some local_path" | "r = None"
    | tr2 where "complete_download env (temp_download_path env local_path) local_path
            (snd (download_object (driver h) (sdk_transfer be) (temp_download_path env local_path) fs)) =
              (Inr r, fs1, tr2)"
    by blast
  then show ?thesis
  proof cases
    case 3
    from complete_download_cases [OF 3 temp_differs] show ?thesis
      by (elim disjE exE conjE) simp_all
  qed simp_all
qed

lemma download_except_results:
  assumes "download_except env local_path delete_on_failure body = (res, fs', tr)"
  shows "res = Inl DownloadError \<or> res = Inr None \<or> res = fst body"
proof -
  obtain rb fs1 trb where b: "body = (rb, fs1, trb)" by (cases body) auto
  from download_except_cases [OF assms [unfolded b]] show ?thesis
    unfolding b by auto
qed

lemma download_except_other_error_removes:
  assumes "download_except env local_path delete_on_failure body = (res, fs', tr)"
    and "fst body = Inl e" and "e \<noteq> DownloadError" and "delete_on_failure"
  shows "Remove (temp_download_path env local_path) \<in> set tr"
proof -
  obtain fs1 trb where b: "body = (Inl e, fs1, trb)" using assms(2) by (cases body) auto
  from assms(1) assms(3) assms(4) show ?thesis
    unfolding b by (auto simp: download_except_def split: if_splits)
qed

lemma download_except_success:
  assumes "download_except env local_path delete_on_failure body = (Inr (Some p), fs', tr)"
  shows "body = (Inr (Some p), fs', tr)"
proof -
  obtain rb fs1 trb where b: "body = (rb, fs1, trb)" by (rule prod_cases3)
  from assms show ?thesis
    unfolding b by (cases rb) (auto simp: download_except_def split: if_splits)
qed

text \<open>
  C2. Take a call of \<open>download_to_file\<close> that goes on to fetch the object (no direct
  access, and no existing file that stops it). It raises \<open>DownloadError\<close>, returns
  \<open>None\<close> or returns \<open>local_path\<close>: no other exception leaves it. It raises
  \<open>DownloadError\<close> when the driver's \<open>get_object\<close> raises \<open>ConnectionError\<close>, and when the
  driver's \<open>download_object\<close> itself raises \<open>DownloadError\<close>. When \<open>get_object\<close> fails in
  another way, or returns an object that is false, the call returns \<open>None\<close> and touches no
  file. Every other failure returns \<open>None\<close>, and with \<open>delete_on_failure\<close> the handler
  calls \<open>os.remove\<close> on the temp file, which does not exist afterwards: an exception of
  the size read that is not caught on the spot; \<open>download_object\<close> raising anything but
  \<open>DownloadError\<close>, whether or not the size read raised one of the three exceptions caught
  on the spot; \<open>download_object\<close> returning with a temp file of size zero, or with no temp
  file at all; and \<open>os.rename\<close> refusing. Conversely the call returns \<open>local_path\<close> only
  when none of these happened: the object was fetched, the transfer returned, the temp
  file was not empty and the rename was not refused.
\<close>

theorem download_failure_returns_null:
  assumes run: "download_to_file env h be remote_path local_path overwrite_existing delete_on_failure fs =
                  (res, fs', tr)"
    and nodirect: "get_direct_access env (driver h)
                     (canonize_url (os_sep env) (path_substitutions env) remote_path) = Inr None \<or>
                   get_direct_access env (driver h)
                     (canonize_url (os_sep env) (path_substitutions env) remote_path) = Inr (Some [])"
    and noskip: "overwrite_existing \<or> \<not> is_file fs local_path"
  shows "(res = Inl DownloadError \<or> res = Inr None \<or> res = Inr (Some local_path)) \<and>
         (\<forall>e. res = Inl e \<longrightarrow> e = DownloadError) \<and>
         (get_object be (normalize_object_name env h
              (canonize_url (os_sep env) (path_substitutions env) remote_path)) = Inl ConnectionError \<longrightarrow>
            res = Inl DownloadError) \<and>
         (\<forall>e. get_object be (normalize_object_name env h
              (canonize_url (os_sep env) (path_substitutions env) remote_path)) = Inl e \<and>
              e \<noteq> ConnectionError \<longrightarrow> res = Inr None \<and> fs' = fs) \<and>
         (\<forall>obj. get_object be (normalize_object_name env h
              (canonize_url (os_sep env) (path_substitutions env) remote_path)) = Inr obj \<and>
              \<not> obj_truthy obj \<longrightarrow> res = Inr None \<and> fs' = fs) \<and>
         (\<forall>obj e. get_object be (normalize_object_name env h
              (canonize_url (os_sep env) (path_substitutions env) remote_path)) = Inr obj \<and>
              obj_truthy obj \<and> size_error obj = Some e \<and>
              e \<noteq> ValueError \<and> e \<noteq> AttributeError \<and> e \<noteq> KeyError \<and> e \<noteq> DownloadError \<longrightarrow>
            res = Inr None \<and>
            (delete_on_failure \<longrightarrow> fs' (temp_download_path env local_path) = None \<and> Remove (temp_download_path env local_path) \<in> set tr)) \<and>
         (\<forall>obj e. get_object be (normalize_object_name env h
              (canonize_url (os_sep env) (path_substitutions env) remote_path)) = Inr obj \<and>
              obj_truthy obj \<and> size_error obj \<in> {None, Some ValueError, Some AttributeError, Some KeyError} \<and>
              fst (download_object (driver h) (sdk_transfer be) (temp_download_path env local_path) fs) = Some e \<and>
              e \<noteq> DownloadError \<longrightarrow>
            res = Inr None \<and>
            (delete_on_failure \<longrightarrow> fs' (temp_download_path env local_path) = None \<and> Remove (temp_download_path env local_path) \<in> set tr)) \<and>
         (\<forall>obj. get_object be (normalize_object_name env h
              (canonize_url (os_sep env) (path_substitutions env) remote_path)) = Inr obj \<and>
              obj_truthy obj \<and> size_error obj \<in> {None, Some ValueError, Some AttributeError, Some KeyError} \<and>
              fst (download_object (driver h) (sdk_transfer be) (temp_download_path env local_path) fs) = Some DownloadError \<longrightarrow>
            res = Inl DownloadError) \<and>
         (\<forall>obj. get_object be (normalize_object_name env h
              (canonize_url (os_sep env) (path_substitutions env) remote_path)) = Inr obj \<and>
              obj_truthy obj \<and> size_error obj \<in> {None, Some ValueError, Some AttributeError, Some KeyError} \<and>
              fst (download_object (driver h) (sdk_transfer be) (temp_download_path env local_path) fs) = None \<and>
              snd (download_object (driver h) (sdk_transfer be) (temp_download_path env local_path) fs)
                (temp_download_path env local_path) = Some [] \<longrightarrow>
            res = Inr None \<and>
            (delete_on_failure \<longrightarrow> fs' (temp_download_path env local_path) = None \<and> Remove (temp_download_path env local_path) \<in> set tr)) \<and>
         (\<forall>obj. get_object be (normalize_object_name env h
              (canonize_url (os_sep env) (path_substitutions env) remote_path)) = Inr obj \<and>
              obj_truthy obj \<and> size_error obj \<in> {None, Some ValueError, Some AttributeError, Some KeyError} \<and>
              fst (download_object (driver h) (sdk_transfer be) (temp_download_path env local_path) fs) = None \<and>
              snd (download_object (driver h) (sdk_transfer be) (temp_download_path env local_path) fs)
                (temp_download_path env local_path) = None \<longrightarrow>
            res = Inr None \<and>
            (delete_on_failure \<longrightarrow> fs' (temp_download_path env local_path) = None \<and> Remove (temp_download_path env local_path) \<in> set tr)) \<and>
         (\<forall>obj b. get_object be (normalize_object_name env h
              (canonize_url (os_sep env) (path_substitutions env) remote_path)) = Inr obj \<and>
              obj_truthy obj \<and> size_error obj \<in> {None, Some ValueError, Some AttributeError, Some KeyError} \<and>
              fst (download_object (driver h) (sdk_transfer be) (temp_download_path env local_path) fs) = None \<and>
              snd (download_object (driver h) (sdk_transfer be) (temp_download_path env local_path) fs)
                (temp_download_path env local_path) = Some b \<and> b \<noteq> [] \<and>
              rename_fails env (temp_download_path env local_path) local_path \<longrightarrow>
            res = Inr None \<and>
            (delete_on_failure \<longrightarrow> fs' (temp_download_path env local_path) = None \<and> Remove (temp_download_path env local_path) \<in> set tr)) \<and>
         (res = Inr (Some local_path) \<longrightarrow>
            (\<exists>obj. get_object be (normalize_object_name env h
              (canonize_url (os_sep env) (path_substitutions env) remote_path)) = Inr obj \<and>
               obj_truthy obj \<and> size_error obj \<in> {None, Some ValueError, Some AttributeError, Some KeyError}) \<and>
            fst (download_object (driver h) (sdk_transfer be) (temp_download_path env local_path) fs) = None \<and>
            (\<exists>b. b \<noteq> [] \<and>
               snd (download_object (driver h) (sdk_transfer be) (temp_download_path env local_path) fs)
                 (temp_download_path env local_path) = Some b) \<and>
            \<not> rename_fails env (temp_download_path env local_path) local_path)"
proof -
  let ?rp = "canonize_url (os_sep env) (path_substitutions env) remote_path"
  let ?name = "normalize_object_name env h ?rp"
  let ?body = "download_try_body env h be ?rp local_path overwrite_existing fs"
  let ?temp = "temp_download_path env local_path"
  let ?dl = "download_object (driver h) (sdk_transfer be) ?temp fs"
  from download_to_file_no_direct [OF nodirect] run
  have ex: "download_except env local_path delete_on_failure ?body = (res, fs', tr)" by simp
  have 1: "e = DownloadError" if "res = Inl e" for e
    by (rule download_except_only_download_error [OF ex that])
  have c0: "(res = Inl DownloadError \<or> res = Inr None \<or> res = Inr (Some local_path))"
  proof -
    obtain rb fs1 trb where body: "?body = (rb, fs1, trb)" by (rule prod_cases3)
    from download_except_results [OF ex] body
    consider "res = Inl DownloadError" | "res = Inr None" | "res = rb" by auto
    then show ?thesis
    proof cases
      case 3
      show ?thesis
      proof (cases rb)
        case (Inl e)
        with 3 1 show ?thesis by simp
      next
        case (Inr r)
        with body download_try_body_returns [of env h be ?rp local_path overwrite_existing fs r fs1 trb] 3
        show ?thesis by auto
      qed
    qed simp_all
  qed
  have c1: "(\<forall>e. res = Inl e \<longrightarrow> e = DownloadError)"
    using 1 by (intro allI impI)
  have raise: "res = Inr None \<and> (delete_on_failure \<longrightarrow> fs' ?temp = None \<and> Remove ?temp \<in> set tr)"
    if b: "fst ?body = Inl e" and e: "e \<noteq> DownloadError" for e
  proof (intro conjI impI)
    from download_except_other_error [OF ex b e] show "res = Inr None" by (rule conjunct1)
    assume d: delete_on_failure
    with download_except_other_error [OF ex b e] show "fs' ?temp = None" by simp
    from download_except_other_error_removes [OF ex b e d] show "Remove ?temp \<in> set tr" .
  qed
  have dl: "res = Inl DownloadError" if "fst ?body = Inl DownloadError"
    by (rule download_except_download_error [OF ex that])
  have untouched: "res = Inr None \<and> fs' = fs" if "?body = (Inr None, fs, [GetObject ?name])"
  proof -
    have "download_except env local_path delete_on_failure (Inr None, fs, [GetObject ?name]) =
            (res, fs', tr)"
      using ex by (simp only: that)
    then show ?thesis by (simp add: download_except_def)
  qed
  have c2: "(get_object be ?name = Inl ConnectionError \<longrightarrow> res = Inl DownloadError)"
  proof (intro impI)
    assume "get_object be ?name = Inl ConnectionError"
    then show "res = Inl DownloadError"
      by (intro dl download_try_body_connection_error [OF noskip])
  qed
  have c3: "(\<forall>e. get_object be ?name = Inl e \<and> e \<noteq> ConnectionError \<longrightarrow> res = Inr None \<and> fs' = fs)"
  proof (intro allI impI)
    fix e assume a: "get_object be ?name = Inl e \<and> e \<noteq> ConnectionError"
    then have p: "get_object be ?name = Inl e" "e \<noteq> ConnectionError" by simp_all
    show "res = Inr None \<and> fs' = fs"
      by (rule untouched [OF download_try_body_fetch_error [OF noskip p]])
  qed
  have c4: "(\<forall>obj. get_object be ?name = Inr obj \<and> \<not> obj_truthy obj \<longrightarrow> res = Inr None \<and> fs' = fs)"
  proof (intro allI impI)
    fix obj assume a: "get_object be ?name = Inr obj \<and> \<not> obj_truthy obj"
    then have p: "get_object be ?name = Inr obj" "\<not> obj_truthy obj" by simp_all
    show "res = Inr None \<and> fs' = fs"
      by (rule untouched [OF download_try_body_falsy_object [OF noskip p]])
  qed
  have c5: "(\<forall>obj e. get_object be ?name = Inr obj \<and> obj_truthy obj \<and> size_error obj = Some e \<and> e \<noteq> ValueError \<and> e \<noteq> AttributeError \<and> e \<noteq> KeyError \<and> e \<noteq> DownloadError \<longrightarrow> res = Inr None \<and> (delete_on_failure \<longrightarrow> fs' ?temp = None \<and> Remove ?temp \<in> set tr))"
  proof (intro allI impI)
    fix obj e
    assume a: "get_object be ?name = Inr obj \<and> obj_truthy obj \<and> size_error obj = Some e \<and>
      e \<noteq> ValueError \<and> e \<noteq> AttributeError \<and> e \<noteq> KeyError \<and> e \<noteq> DownloadError"
    then have p: "get_object be ?name = Inr obj" "obj_truthy obj" "size_error obj = Some e"
      "e \<noteq> ValueError" "e \<noteq> AttributeError" "e \<noteq> KeyError" and q: "e \<noteq> DownloadError"
      by simp_all
    show "res = Inr None \<and> (delete_on_failure \<longrightarrow> fs' ?temp = None \<and> Remove ?temp \<in> set tr)"
      by (rule raise [OF download_try_body_size_error [OF noskip p] q])
  qed
  have c6: "(\<forall>obj e. get_object be ?name = Inr obj \<and> obj_truthy obj \<and> size_error obj \<in> {None, Some ValueError, Some AttributeError, Some KeyError} \<and> fst ?dl = Some e \<and> e \<noteq> DownloadError \<longrightarrow> res = Inr None \<and> (delete_on_failure \<longrightarrow> fs' ?temp = None \<and> Remove ?temp \<in> set tr))"
  proof (intro allI impI)
    fix obj e
    assume a: "get_object be ?name = Inr obj \<and> obj_truthy obj \<and>
      size_error obj \<in> {None, Some ValueError, Some AttributeError, Some KeyError} \<and>
      fst ?dl = Some e \<and> e \<noteq> DownloadError"
    then have p: "get_object be ?name = Inr obj" "obj_truthy obj"
      "size_error obj \<in> {None, Some ValueError, Some AttributeError, Some KeyError}"
      "fst ?dl = Some e" and q: "e \<noteq> DownloadError"
      by (simp_all del: insert_iff)
    show "res = Inr None \<and> (delete_on_failure \<longrightarrow> fs' ?temp = None \<and> Remove ?temp \<in> set tr)"
      by (rule raise [OF download_try_body_transfer_raises [OF noskip p] q])
  qed
  have c7: "(\<forall>obj. get_object be ?name = Inr obj \<and> obj_truthy obj \<and> size_error obj \<in> {None, Some ValueError, Some AttributeError, Some KeyError} \<and> fst ?dl = Some DownloadError \<longrightarrow> res = Inl DownloadError)"
  proof (intro allI impI)
    fix obj
    assume a: "get_object be ?name = Inr obj \<and> obj_truthy obj \<and>
      size_error obj \<in> {None, Some ValueError, Some AttributeError, Some KeyError} \<and>
      fst ?dl = Some DownloadError"
    then have p: "get_object be ?name = Inr obj" "obj_truthy obj"
      "size_error obj \<in> {None, Some ValueError, Some AttributeError, Some KeyError}"
      "fst ?dl = Some DownloadError"
      by (simp_all del: insert_iff)
    show "res = Inl DownloadError"
      by (rule dl [OF download_try_body_transfer_raises [OF noskip p]])
  qed
  have c8: "(\<forall>obj. get_object be ?name = Inr obj \<and> obj_truthy obj \<and> size_error obj \<in> {None, Some ValueError, Some AttributeError, Some KeyError} \<and> fst ?dl = None \<and> snd ?dl ?temp = Some [] \<longrightarrow> res = Inr None \<and> (delete_on_failure \<longrightarrow> fs' ?temp = None \<and> Remove ?temp \<in> set tr))"
  proof (intro allI impI)
    fix obj
    assume a: "get_object be ?name = Inr obj \<and> obj_truthy obj \<and>
      size_error obj \<in> {None, Some ValueError, Some AttributeError, Some KeyError} \<and>
      fst ?dl = None \<and> snd ?dl ?temp = Some []"
    then have p: "get_object be ?name = Inr obj" "obj_truthy obj"
      "size_error obj \<in> {None, Some ValueError, Some AttributeError, Some KeyError}"
      "fst ?dl = None" "snd ?dl ?temp = Some []"
      by (simp_all del: insert_iff)
    show "res = Inr None \<and> (delete_on_failure \<longrightarrow> fs' ?temp = None \<and> Remove ?temp \<in> set tr)"
      by (rule raise [OF download_try_body_zero_bytes [OF noskip p]]) simp
  qed
  have c9: "(\<forall>obj. get_object be ?name = Inr obj \<and> obj_truthy obj \<and> size_error obj \<in> {None, Some ValueError, Some AttributeError, Some KeyError} \<and> fst ?dl = None \<and> snd ?dl ?temp = None \<longrightarrow> res = Inr None \<and> (delete_on_failure \<longrightarrow> fs' ?temp = None \<and> Remove ?temp \<in> set tr))"
  proof (intro allI impI)
    fix obj
    assume a: "get_object be ?name = Inr obj \<and> obj_truthy obj \<and>
      size_error obj \<in> {None, Some ValueError, Some AttributeError, Some KeyError} \<and>
      fst ?dl = None \<and> snd ?dl ?temp = None"
    then have p: "get_object be ?name = Inr obj" "obj_truthy obj"
      "size_error obj \<in> {None, Some ValueError, Some AttributeError, Some KeyError}"
      "fst ?dl = None" "snd ?dl ?temp = None"
      by (simp_all del: insert_iff)
    show "res = Inr None \<and> (delete_on_failure \<longrightarrow> fs' ?temp = None \<and> Remove ?temp \<in> set tr)"
      by (rule raise [OF download_try_body_no_file [OF noskip p]]) simp
  qed
  have c10: "(\<forall>obj b. get_object be ?name = Inr obj \<and> obj_truthy obj \<and> size_error obj \<in> {None, Some ValueError, Some AttributeError, Some KeyError} \<and> fst ?dl = None \<and> snd ?dl ?temp = Some b \<and> b \<noteq> [] \<and> rename_fails env ?temp local_path \<longrightarrow> res = Inr None \<and> (delete_on_failure \<longrightarrow> fs' ?temp = None \<and> Remove ?temp \<in> set tr))"
  proof (intro allI impI)
    fix obj b
    assume a: "get_object be ?name = Inr obj \<and> obj_truthy obj \<and>
      size_error obj \<in> {None, Some ValueError, Some AttributeError, Some KeyError} \<and>
      fst ?dl = None \<and> snd ?dl ?temp = Some b \<and> b \<noteq> [] \<and> rename_fails env ?temp local_path"
    then have p: "get_object be ?name = Inr obj" "obj_truthy obj"
      "size_error obj \<in> {None, Some ValueError, Some AttributeError, Some KeyError}"
      "fst ?dl = None" "snd ?dl ?temp = Some b" "b \<noteq> []" "rename_fails env ?temp local_path"
      by (simp_all del: insert_iff)
    show "res = Inr None \<and> (delete_on_failure \<longrightarrow> fs' ?temp = None \<and> Remove ?temp \<in> set tr)"
      by (rule raise [OF download_try_body_rename_refused [OF noskip p]]) simp
  qed
  have c11: "(res = Inr (Some local_path) \<longrightarrow> (\<exists>obj. get_object be ?name = Inr obj \<and> obj_truthy obj \<and> size_error obj \<in> {None, Some ValueError, Some AttributeError, Some KeyError}) \<and> fst ?dl = None \<and> (\<exists>b. b \<noteq> [] \<and> snd ?dl ?temp = Some b) \<and> \<not> rename_fails env ?temp local_path)"
  proof (intro impI)
    assume "res = Inr (Some local_path)"
    with ex have "download_except env local_path delete_on_failure ?body =
        (Inr (Some local_path), fs', tr)" by simp
    then have "?body = (Inr (Some local_path), fs', tr)" by (rule download_except_success)
    then show "(\<exists>obj. get_object be ?name = Inr obj \<and> obj_truthy obj \<and>
          size_error obj \<in> {None, Some ValueError, Some AttributeError, Some KeyError}) \<and>
        fst ?dl = None \<and> (\<exists>b. b \<noteq> [] \<and> snd ?dl ?temp = Some b) \<and>
        \<not> rename_fails env ?temp local_path"
      by (rule download_try_body_success [OF noskip])
  qed
  show ?thesis
    by (intro conjI) (fact c0 c1 c2 c3 c4 c5 c6 c7 c8 c9 c10 c11)+
qed

lemmas example_download_defs = download_to_file_def download_except_def windows_env_def
  example_env_def example_http_helper_def example_backend_def example_fs_def canonize_url_def
  scenario_rule_def get_direct_access_def download_try_body_def is_file_def temp_download_path_def
  normalize_object_name_def helper_get_object_def transfer_to_temp_def hasattr_driver_def
  download_object_def sdk_download_def complete_download_def os_remove_def os_rename_def Let_def
  Driver_abstract_methods_def

theorem download_to_file_temp_then_rename_witness:
  "(case download_to_file windows_env example_http_helper (example_backend ''abc'' None)
      ''https://files.example.com/model.bin'' ''/data/model.bin'' True True example_fs of
    (res, fs', tr) \<Rightarrow>
      res = Inr (Some ''/data/model.bin'') \<and> fs' ''/data/model.bin'' = Some ''abc'' \<and>
      fs' ''/data/model.bin_1572860000.25.partially'' = None \<and>
      tr = [GetObject ''files.example.com/model.bin'',
            DownloadObject ''/data/model.bin_1572860000.25.partially'',
            Stat ''/data/model.bin_1572860000.25.partially'' (Some 3),
            Remove ''/data/model.bin'',
            Rename ''/data/model.bin_1572860000.25.partially'' ''/data/model.bin'']) \<and>
   (case download_to_file windows_env example_http_helper (example_backend ''ab'' (Some ConnectionError))
      ''https://files.example.com/model.bin'' ''/data/model.bin'' True False example_fs of
    (res, fs', tr) \<Rightarrow>
      res = Inr None \<and> fs' ''/data/model.bin'' = Some ''old'' \<and>
      fs' ''/data/model.bin_1572860000.25.partially'' = Some ''ab'' \<and>
      tr = [GetObject ''files.example.com/model.bin'',
            DownloadObject ''/data/model.bin_1572860000.25.partially'']) \<and>
   (case download_to_file locked_windows_env example_http_helper (example_backend ''abc'' None)
      ''https://files.example.com/model.bin'' ''/data/model.bin'' True False example_fs of
    (res, fs', tr) \<Rightarrow>
      res = Inr None \<and> fs' ''/data/model.bin'' = None \<and>
      fs' ''/data/model.bin_1572860000.25.partially'' = Some ''abc'' \<and>
      tr = [GetObject ''files.example.com/model.bin'',
            DownloadObject ''/data/model.bin_1572860000.25.partially'',
            Stat ''/data/model.bin_1572860000.25.partially'' (Some 3),
            Remove ''/data/model.bin'',
            RenameFailed ''/data/model.bin_1572860000.25.partially'' ''/data/model.bin'']) \<and>
   temp_download_path windows_env ''/data/model.bin'' = ''/data/model.bin_1572860000.25.partially'' \<and>
   temp_download_path windows_env ''/data/model.bin'' \<noteq> ''/data/model.bin''"
proof -
  obtain res fs' tr where run:
    "download_to_file windows_env example_http_helper (example_backend ''abc'' None)
      ''https://files.example.com/model.bin'' ''/data/model.bin'' True True example_fs = (res, fs', tr)"
    by (rule prod_cases3)
  have t: "temp_download_path windows_env ''/data/model.bin'' = ''/data/model.bin_1572860000.25.partially''"
    by (simp add: temp_download_path_def windows_env_def example_env_def)
  have tr: "tr = [GetObject ''files.example.com/model.bin'',
            DownloadObject ''/data/model.bin_1572860000.25.partially'',
            Stat ''/data/model.bin_1572860000.25.partially'' (Some 3),
            Remove ''/data/model.bin'',
            Rename ''/data/model.bin_1572860000.25.partially'' ''/data/model.bin'']"
    using run by (auto simp: example_download_defs)
  then have mem: "Rename ''/data/model.bin_1572860000.25.partially'' ''/data/model.bin'' \<in> set tr" by simp
  have dl: "snd (download_object (driver example_http_helper) (sdk_transfer (example_backend ''abc'' None))
              (temp_download_path windows_env ''/data/model.bin'') example_fs)
              (temp_download_path windows_env ''/data/model.bin'') = Some ''abc''"
    by (simp add: download_object_def sdk_download_def example_http_helper_def example_backend_def)
  note claim = download_to_file_temp_then_rename [OF run]
  from claim have differs: "temp_download_path windows_env ''/data/model.bin'' \<noteq> ''/data/model.bin''"
    by (rule conjunct1)
  note renamed = claim [THEN conjunct2, THEN conjunct2, THEN conjunct1, rule_format, OF mem]
  from renamed have res: "res = Inr (Some ''/data/model.bin'')"
    by (elim conjE)
  from renamed obtain b where
    "snd (download_object (driver example_http_helper) (sdk_transfer (example_backend ''abc'' None))
       (temp_download_path windows_env ''/data/model.bin'') example_fs)
       (temp_download_path windows_env ''/data/model.bin'') = Some b"
    and "fs' ''/data/model.bin'' = Some b" and "fs' (temp_download_path windows_env ''/data/model.bin'') = None"
    by (elim conjE exE)
  with dl t have fs: "fs' ''/data/model.bin'' = Some ''abc''" "fs' ''/data/model.bin_1572860000.25.partially'' = None"
    by simp_all
  have first: "(case download_to_file windows_env example_http_helper (example_backend ''abc'' None)
      ''https://files.example.com/model.bin'' ''/data/model.bin'' True True example_fs of
    (res, fs', tr) \<Rightarrow>
      res = Inr (Some ''/data/model.bin'') \<and> fs' ''/data/model.bin'' = Some ''abc'' \<and>
      fs' ''/data/model.bin_1572860000.25.partially'' = None \<and>
      tr = [GetObject ''files.example.com/model.bin'',
            DownloadObject ''/data/model.bin_1572860000.25.partially'',
            Stat ''/data/model.bin_1572860000.25.partially'' (Some 3),
            Remove ''/data/model.bin'',
            Rename ''/data/model.bin_1572860000.25.partially'' ''/data/model.bin''])"
    using res fs tr by (simp add: run)
  have second: "(case download_to_file windows_env example_http_helper (example_backend ''ab'' (Some ConnectionError))
      ''https://files.example.com/model.bin'' ''/data/model.bin'' True False example_fs of
    (res, fs', tr) \<Rightarrow>
      res = Inr None \<and> fs' ''/data/model.bin'' = Some ''old'' \<and>
      fs' ''/data/model.bin_1572860000.25.partially'' = Some ''ab'' \<and>
      tr = [GetObject ''files.example.com/model.bin'',
            DownloadObject ''/data/model.bin_1572860000.25.partially''])"
    by (simp add: example_download_defs)
  have third: "(case download_to_file locked_windows_env example_http_helper (example_backend ''abc'' None)
      ''https://files.example.com/model.bin'' ''/data/model.bin'' True False example_fs of
    (res, fs', tr) \<Rightarrow>
      res = Inr None \<and> fs' ''/data/model.bin'' = None \<and>
      fs' ''/data/model.bin_1572860000.25.partially'' = Some ''abc'' \<and>
      tr = [GetObject ''files.example.com/model.bin'',
            DownloadObject ''/data/model.bin_1572860000.25.partially'',
            Stat ''/data/model.bin_1572860000.25.partially'' (Some 3),
            Remove ''/data/model.bin'',
            RenameFailed ''/data/model.bin_1572860000.25.partially'' ''/data/model.bin''])"
    by (simp add: example_download_defs locked_windows_env_def)
  from first second third t differs show ?thesis by (intro conjI)
qed

theorem download_failure_returns_null_witness:
  "(case download_to_file windows_env example_http_helper (unsized_backend (Some []) None)
      ''https://files.example.com/model.bin'' ''/data/model.bin'' True True example_fs of
    (res, fs', tr) \<Rightarrow>
      res = Inr None \<and> fs' ''/data/model.bin'' = Some ''old'' \<and>
      fs' ''/data/model.bin_1572860000.25.partially'' = None \<and>
      tr = [GetObject ''files.example.com/model.bin'',
            DownloadObject ''/data/model.bin_1572860000.25.partially'',
            Stat ''/data/model.bin_1572860000.25.partially'' (Some 0),
            Remove ''/data/model.bin_1572860000.25.partially'']) \<and>
   (case download_to_file windows_env example_http_helper (unsized_backend None None)
      ''https://files.example.com/model.bin'' ''/data/model.bin'' True True example_fs of
    (res, fs', tr) \<Rightarrow>
      res = Inr None \<and> fs' = example_fs \<and>
      tr = [GetObject ''files.example.com/model.bin'',
            DownloadObject ''/data/model.bin_1572860000.25.partially'',
            Stat ''/data/model.bin_1572860000.25.partially'' None,
            Remove ''/data/model.bin_1572860000.25.partially'']) \<and>
   (case download_to_file windows_env example_http_helper (unsized_backend (Some ''ab'') (Some ConnectionError))
      ''https://files.example.com/model.bin'' ''/data/model.bin'' True True example_fs of
    (res, fs', tr) \<Rightarrow>
      res = Inr None \<and> fs' ''/data/model.bin'' = Some ''old'' \<and>
      fs' ''/data/model.bin_1572860000.25.partially'' = None \<and>
      tr = [GetObject ''files.example.com/model.bin'',
            DownloadObject ''/data/model.bin_1572860000.25.partially'',
            Remove ''/data/model.bin_1572860000.25.partially'']) \<and>
   (case download_to_file locked_windows_env example_http_helper (example_backend ''abc'' None)
      ''https://files.example.com/model.bin'' ''/data/model.bin'' True True example_fs of
    (res, fs', tr) \<Rightarrow>
      res = Inr None \<and> fs' ''/data/model.bin'' = None \<and>
      fs' ''/data/model.bin_1572860000.25.partially'' = None \<and>
      tr = [GetObject ''files.example.com/model.bin'',
            DownloadObject ''/data/model.bin_1572860000.25.partially'',
            Stat ''/data/model.bin_1572860000.25.partially'' (Some 3),
            Remove ''/data/model.bin'',
            RenameFailed ''/data/model.bin_1572860000.25.partially'' ''/data/model.bin'',
            Remove ''/data/model.bin_1572860000.25.partially'']) \<and>
   fst (download_to_file windows_env example_http_helper (unsized_backend (Some ''ab'') (Some DownloadError))
      ''https://files.example.com/model.bin'' ''/data/model.bin'' True True example_fs) = Inl DownloadError \<and>
   fst (download_to_file windows_env example_http_helper (example_backend ''abc'' None)
      ''https://files.example.com/down'' ''/data/model.bin'' True True example_fs) = Inl DownloadError"
proof -
  obtain res fs' tr where run:
    "download_to_file windows_env example_http_helper (unsized_backend (Some []) None)
      ''https://files.example.com/model.bin'' ''/data/model.bin'' True True example_fs = (res, fs', tr)"
    by (rule prod_cases3)
  have t: "temp_download_path windows_env ''/data/model.bin'' = ''/data/model.bin_1572860000.25.partially''"
    by (simp add: temp_download_path_def windows_env_def example_env_def)
  have val: "fs' ''/data/model.bin'' = Some ''old'' \<and>
      tr = [GetObject ''files.example.com/model.bin'',
            DownloadObject ''/data/model.bin_1572860000.25.partially'',
            Stat ''/data/model.bin_1572860000.25.partially'' (Some 0),
            Remove ''/data/model.bin_1572860000.25.partially'']"
    using run by (auto simp: example_download_defs unsized_backend_def)
  have nd: "get_direct_access windows_env (driver example_http_helper)
              (canonize_url (os_sep windows_env) (path_substitutions windows_env)
                 ''https://files.example.com/model.bin'') = Inr None \<or>
            get_direct_access windows_env (driver example_http_helper)
              (canonize_url (os_sep windows_env) (path_substitutions windows_env)
                 ''https://files.example.com/model.bin'') = Inr (Some [])"
    by (simp add: get_direct_access_def example_http_helper_def)
  have ns: "True \<or> \<not> is_file example_fs ''/data/model.bin''" by simp
  have obj: "get_object (unsized_backend (Some []) None) (normalize_object_name windows_env example_http_helper
              (canonize_url (os_sep windows_env) (path_substitutions windows_env)
                 ''https://files.example.com/model.bin'')) = Inr \<lparr>obj_truthy = True, size_error = Some ValueError\<rparr> \<and>
            obj_truthy \<lparr>obj_truthy = True, size_error = Some ValueError\<rparr> \<and>
            size_error \<lparr>obj_truthy = True, size_error = Some ValueError\<rparr> \<in>
              {None, Some ValueError, Some AttributeError, Some KeyError} \<and>
            fst (download_object (driver example_http_helper) (sdk_transfer (unsized_backend (Some []) None))
              (temp_download_path windows_env ''/data/model.bin'') example_fs) = None \<and>
            snd (download_object (driver example_http_helper) (sdk_transfer (unsized_backend (Some []) None))
              (temp_download_path windows_env ''/data/model.bin'') example_fs)
              (temp_download_path windows_env ''/data/model.bin'') = Some []"
    by (simp add: unsized_backend_def download_object_def sdk_download_def example_http_helper_def)
  note claim = download_failure_returns_null [OF run nd ns]
  note empty = claim [THEN conjunct2, THEN conjunct2, THEN conjunct2, THEN conjunct2,
      THEN conjunct2, THEN conjunct2, THEN conjunct2, THEN conjunct2, THEN conjunct1,
      rule_format, OF obj]
  from empty have res: "res = Inr None" by (rule conjunct1)
  from empty t have gone: "fs' ''/data/model.bin_1572860000.25.partially'' = None" by simp
  have first: "(case download_to_file windows_env example_http_helper (unsized_backend (Some []) None)
      ''https://files.example.com/model.bin'' ''/data/model.bin'' True True example_fs of
    (res, fs', tr) \<Rightarrow>
      res = Inr None \<and> fs' ''/data/model.bin'' = Some ''old'' \<and>
      fs' ''/data/model.bin_1572860000.25.partially'' = None \<and>
      tr = [GetObject ''files.example.com/model.bin'',
            DownloadObject ''/data/model.bin_1572860000.25.partially'',
            Stat ''/data/model.bin_1572860000.25.partially'' (Some 0),
            Remove ''/data/model.bin_1572860000.25.partially''])"
    using res gone val by (simp add: run)
  have second: "(case download_to_file windows_env example_http_helper (unsized_backend None None)
      ''https://files.example.com/model.bin'' ''/data/model.bin'' True True example_fs of
    (res, fs', tr) \<Rightarrow>
      res = Inr None \<and> fs' = example_fs \<and>
      tr = [GetObject ''files.example.com/model.bin'',
            DownloadObject ''/data/model.bin_1572860000.25.partially'',
            Stat ''/data/model.bin_1572860000.25.partially'' None,
            Remove ''/data/model.bin_1572860000.25.partially''])"
    by (simp add: example_download_defs unsized_backend_def)
  have third: "(case download_to_file windows_env example_http_helper (unsized_backend (Some ''ab'') (Some ConnectionError))
      ''https://files.example.com/model.bin'' ''/data/model.bin'' True True example_fs of
    (res, fs', tr) \<Rightarrow>
      res = Inr None \<and> fs' ''/data/model.bin'' = Some ''old'' \<and>
      fs' ''/data/model.bin_1572860000.25.partially'' = None \<and>
      tr = [GetObject ''files.example.com/model.bin'',
            DownloadObject ''/data/model.bin_1572860000.25.partially'',
            Remove ''/data/model.bin_1572860000.25.partially''])"
    by (simp add: example_download_defs unsized_backend_def)
  have fourth: "(case download_to_file locked_windows_env example_http_helper (example_backend ''abc'' None)
      ''https://files.example.com/model.bin'' ''/data/model.bin'' True True example_fs of
    (res, fs', tr) \<Rightarrow>
      res = Inr None \<and> fs' ''/data/model.bin'' = None \<and>
      fs' ''/data/model.bin_1572860000.25.partially'' = None \<and>
      tr = [GetObject ''files.example.com/model.bin'',
            DownloadObject ''/data/model.bin_1572860000.25.partially'',
            Stat ''/data/model.bin_1572860000.25.partially'' (Some 3),
            Remove ''/data/model.bin'',
            RenameFailed ''/data/model.bin_1572860000.25.partially'' ''/data/model.bin'',
            Remove ''/data/model.bin_1572860000.25.partially''])"
    by (simp add: example_download_defs locked_windows_env_def)
  have fifth: "fst (download_to_file windows_env example_http_helper (unsized_backend (Some ''ab'') (Some DownloadError))
      ''https://files.example.com/model.bin'' ''/data/model.bin'' True True example_fs) = Inl DownloadError"
    by (simp add: example_download_defs unsized_backend_def)
  have sixth: "fst (download_to_file windows_env example_http_helper (example_backend ''abc'' None)
      ''https://files.example.com/down'' ''/data/model.bin'' True True example_fs) = Inl DownloadError"
    by (simp add: example_download_defs)
  from first second third fourth fifth sixth show ?thesis by (intro conjI)
qed

theorem download_skips_existing_file_witness:
  "download_to_file windows_env example_http_helper (example_backend ''abc'' None)
     ''https://files.example.com/model.bin'' ''/data/model.bin'' False True example_fs =
     (Inr (Some ''/data/model.bin''), example_fs, []) \<and>
   example_fs ''/data/model.bin'' = Some ''old''"
proof -
  have nd: "get_direct_access windows_env (driver example_http_helper)
              (canonize_url (os_sep windows_env) (path_substitutions windows_env)
                 ''https://files.example.com/model.bin'') = Inr None"
    by (simp add: get_direct_access_def example_http_helper_def)
  have f: "is_file example_fs ''/data/model.bin''"
    by (simp add: is_file_def example_fs_def)
  have "(None :: string option) = None \<or> None = Some []" by simp
  from download_skips_existing_file [OF nd this _ f, of False "example_backend ''abc'' None" True]
  show ?thesis by (simp add: example_fs_def)
qed

theorem download_object_always_selected_witness:
  "hasattr_driver HttpDriver ''download_object'' \<and>
   (case download_to_file windows_env example_http_helper (example_backend ''abc'' None)
      ''https://files.example.com/model.bin'' ''/data/model.bin'' True True example_fs of
    (res, fs', tr) \<Rightarrow>
      tr = [GetObject ''files.example.com/model.bin'',
            DownloadObject ''/data/model.bin_1572860000.25.partially'',
            Stat ''/data/model.bin_1572860000.25.partially'' (Some 3),
            Remove ''/data/model.bin'',
            Rename ''/data/model.bin_1572860000.25.partially'' ''/data/model.bin''] \<and>
      list_all (\<lambda>ev. \<not> stream_copy_event ev) tr)"
proof -
  obtain res fs' tr where run:
    "download_to_file windows_env example_http_helper (example_backend ''abc'' None)
      ''https://files.example.com/model.bin'' ''/data/model.bin'' True True example_fs = (res, fs', tr)"
    by (rule prod_cases3)
  have val: "tr = [GetObject ''files.example.com/model.bin'',
            DownloadObject ''/data/model.bin_1572860000.25.partially'',
            Stat ''/data/model.bin_1572860000.25.partially'' (Some 3),
            Remove ''/data/model.bin'',
            Rename ''/data/model.bin_1572860000.25.partially'' ''/data/model.bin'']"
    using run by (auto simp: example_download_defs)
  from download_object_always_selected [of HttpDriver windows_env example_http_helper
      "example_backend ''abc'' None" "''https://files.example.com/model.bin''" "''/data/model.bin''"
      True True example_fs] run
  have "hasattr_driver HttpDriver ''download_object''" "\<forall>ev \<in> set tr. \<not> stream_copy_event ev"
    by blast+
  with val show ?thesis by (simp add: run list_all_iff)
qed

end
